theory Spec2Isabelle
  imports Main
begin

section \<open>Strings as the handlers use them\<close>

text \<open>
  Header values are strings of 8-bit characters (Node decodes header bytes as latin1), so
  \<^typ>\<open>string\<close> represents them exactly.  Path segments and stored strings are only
  compared for equality, for which their bytes stand for them.  The helpers below are the
  JavaScript string methods the routes call: \<^verbatim>\<open>s.startsWith(p)\<close>, \<^verbatim>\<open>s.includes(p)\<close>
  (named \<open>str_includes\<close> here), \<^verbatim>\<open>s.toLowerCase()\<close>, \<^verbatim>\<open>s.split(',')[0]\<close>,
  \<^verbatim>\<open>s.trim()\<close> and the test of a regular expression that is an alternation of
  literals under the \<^verbatim>\<open>i\<close> flag.
\<close>

fun startsWith :: "string \<Rightarrow> string \<Rightarrow> bool" where
  "startsWith s [] = True"
| "startsWith [] (p # ps) = False"
| "startsWith (c # cs) (p # ps) = (c = p \<and> startsWith cs ps)"

fun str_includes :: "string \<Rightarrow> string \<Rightarrow> bool" where
  "str_includes [] p = (p = [])"
| "str_includes (c # cs) p = (startsWith (c # cs) p \<or> str_includes cs p)"

text \<open>
  \<^verbatim>\<open>toLowerCase\<close> on latin1: the letters A-Z and the accented capitals 0xC0-0xDE
  (without the multiplication sign 0xD7) move up by 32; every other character stays.
\<close>

definition lower_char :: "char \<Rightarrow> char" where
  "lower_char c =
     (let n = (of_char c :: nat)
      in if (65 \<le> n \<and> n \<le> 90) \<or> (192 \<le> n \<and> n \<le> 222 \<and> n \<noteq> 215)
         then char_of (n + 32) else c)"

definition toLowerCase :: "string \<Rightarrow> string" where
  "toLowerCase s = map lower_char s"

text \<open>
  The \<^verbatim>\<open>i\<close> flag compares characters after canonicalisation to upper case; a character
  outside ASCII never canonicalises to an ASCII one.
\<close>

definition canonicalize :: "char \<Rightarrow> char" where
  "canonicalize c =
     (let n = (of_char c :: nat)
      in if (97 \<le> n \<and> n \<le> 122) \<or> (224 \<le> n \<and> n \<le> 254 \<and> n \<noteq> 247)
         then char_of (n - 32) else c)"

fun matches_here_i :: "string \<Rightarrow> string \<Rightarrow> bool" where
  "matches_here_i s [] = True"
| "matches_here_i [] (p # ps) = False"
| "matches_here_i (c # cs) (p # ps) =
     (canonicalize c = canonicalize p \<and> matches_here_i cs ps)"

fun search_i :: "string \<Rightarrow> string \<Rightarrow> bool" where
  "search_i [] p = (p = [])"
| "search_i (c # cs) p = (matches_here_i (c # cs) p \<or> search_i cs p)"

text \<open>\<^verbatim>\<open>/a|b|c/i.test(s)\<close> for literal alternatives \<open>a\<close>, \<open>b\<close>, \<open>c\<close>.\<close>

definition regex_test_i :: "string list \<Rightarrow> string \<Rightarrow> bool" where
  "regex_test_i alternatives s = list_ex (search_i s) alternatives"

text \<open>
  White space for \<^verbatim>\<open>trim\<close> within latin1: tab, line feed, vertical tab, form feed,
  carriage return, space and the no-break space.
\<close>

definition is_space :: "char \<Rightarrow> bool" where
  "is_space c = (let n = (of_char c :: nat) in (9 \<le> n \<and> n \<le> 13) \<or> n = 32 \<or> n = 160)"

definition trim :: "string \<Rightarrow> string" where
  "trim s = rev (dropWhile is_space (rev (dropWhile is_space s)))"

definition split_comma_first :: "string \<Rightarrow> string" where
  "split_comma_first s = takeWhile (\<lambda>c. c \<noteq> CHR '','') s"

text \<open>
  \<^verbatim>\<open>a || b\<close> where \<open>a\<close> is a string or \<^verbatim>\<open>undefined\<close>: the empty string and
  \<^verbatim>\<open>undefined\<close> are falsy.
\<close>

fun js_or :: "string option \<Rightarrow> string \<Rightarrow> string" where
  "js_or None d = d"
| "js_or (Some s) d = (if s = [] then d else s)"

section \<open>User-agent classifier (routes/redirect.js)\<close>

definition getDeviceType :: "string \<Rightarrow> string" where
  "getDeviceType userAgent =
     (if userAgent = [] then ''desktop''
      else let userAgent = toLowerCase userAgent
        in if regex_test_i [''mobile'', ''android'', ''iphone'', ''ipad'', ''ipod'',
                            ''blackberry'', ''iemobile'', ''opera mini''] userAgent
           then ''mobile''
           else if regex_test_i [''tablet'', ''ipad''] userAgent then ''tablet''
           else ''desktop'')"

definition getBrowser :: "string \<Rightarrow> string" where
  "getBrowser userAgent =
     (if userAgent = [] then ''Unknown''
      else if str_includes userAgent ''Firefox'' then ''Firefox''
      else if str_includes userAgent ''Edg'' then ''Edge''
      else if str_includes userAgent ''Chrome'' then ''Chrome''
      else if str_includes userAgent ''Safari'' then ''Safari''
      else if str_includes userAgent ''Opera'' \<or> str_includes userAgent ''OPR'' then ''Opera''
      else if str_includes userAgent ''MSIE'' \<or> str_includes userAgent ''Trident''
        then ''Internet Explorer''
      else ''Other'')"

definition getOS :: "string \<Rightarrow> string" where
  "getOS userAgent =
     (if userAgent = [] then ''Unknown''
      else if str_includes userAgent ''Windows NT 10'' then ''Windows 10''
      else if str_includes userAgent ''Windows NT 6.3'' then ''Windows 8.1''
      else if str_includes userAgent ''Windows NT 6.2'' then ''Windows 8''
      else if str_includes userAgent ''Windows NT 6.1'' then ''Windows 7''
      else if str_includes userAgent ''Windows'' then ''Windows''
      else if str_includes userAgent ''Mac OS X'' then ''macOS''
      else if str_includes userAgent ''Android'' then ''Android''
      else if str_includes userAgent ''iPhone'' \<or> str_includes userAgent ''iPad'' then ''iOS''
      else if str_includes userAgent ''Linux'' then ''Linux''
      else ''Other'')"

section \<open>The store (models/Url.js, models/Click.js)\<close>

text \<open>
  Documents are records of the schema's fields; \<open>oid\<close> is the document's \<^verbatim>\<open>_id\<close>.
  Creation timestamps and the \<^verbatim>\<open>_id\<close> of a click play no part in the routes modelled
  here and are left out.  A collection is the list of its documents in insertion order,
  which is the order in which \<^verbatim>\<open>findOne\<close> meets them.
\<close>

record geo =
  city :: string
  country :: string
  region :: string

definition geo_local :: geo where
  "geo_local = \<lparr>city = ''Local'', country = ''Local'', region = ''Local''\<rparr>"

definition geo_unknown :: geo where
  "geo_unknown = \<lparr>city = ''Unknown'', country = ''Unknown'', region = ''Unknown''\<rparr>"

record url =
  oid :: nat
  userId :: nat
  title :: string
  originalUrl :: string
  shortUrl :: string
  customUrl :: "string option"
  qr :: string
  qrPublicId :: string

record click = geo +
  urlId :: nat
  device :: string
  browser :: string
  os :: string
  ip :: string
  referer :: string

record store =
  urls :: "url list"
  clicks :: "click list"

text \<open>
  The awaited calls a handler makes can reject; which of them do is an input of the model,
  one flag per call, with the message of the error that is thrown.
\<close>

record faults =
  findOne_rejects :: bool
  create_rejects :: bool
  uploadImage_rejects :: bool
  deleteImage_rejects :: bool
  deleteMany_rejects :: bool
  deleteOne_rejects :: bool
  error_message :: string

definition no_faults :: faults where
  "no_faults = \<lparr>findOne_rejects = False, create_rejects = False, uploadImage_rejects = False,
                 deleteImage_rejects = False, deleteMany_rejects = False,
                 deleteOne_rejects = False, error_message = []\<rparr>"

text \<open>
  \<^verbatim>\<open>Url.findOne({ $or: [{ shortUrl: shortCode }, { customUrl: shortCode }] })\<close>:
  the first document one of whose two fields equals the string.
\<close>

definition matches_code :: "string \<Rightarrow> url \<Rightarrow> bool" where
  "matches_code code u = (shortUrl u = code \<or> customUrl u = Some code)"

definition Url_findOne_or :: "url list \<Rightarrow> string \<Rightarrow> url option" where
  "Url_findOne_or us code = find (matches_code code) us"

section \<open>Requests, responses and effects\<close>

record request =
  shortCode :: string
  user_agent :: "string option"
  referer_header :: "string option"
  referrer_header :: "string option"
  x_forwarded_for :: "string option"
  connection_remoteAddress :: "string option"
  socket_remoteAddress :: "string option"
  req_ip :: "string option"

datatype payload = Message string | LinkData nat string | Links "url list" | ClickData click

text \<open>
  A response: a redirect with its status and the \<^verbatim>\<open>Location\<close> header that is sent, a body
  sent with a status, or a JSON object with a status.
\<close>

datatype response =
  Redirect nat string
| Send nat string
| Json nat bool payload

fun status_code :: "response \<Rightarrow> nat" where
  "status_code (Redirect n target) = n"
| "status_code (Send n body) = n"
| "status_code (Json n success p) = n"

text \<open>
  What the geolocation provider does with the one request the resolver may send, once
  its answer is in.  \<open>FetchRejects\<close>: \<^verbatim>\<open>fetch\<close> rejects (network error).
  \<open>JsonRejects\<close>: the body is not JSON, so \<^verbatim>\<open>response.json()\<close> rejects.  \<open>JsonNull\<close>: the
  body is the JSON \<^verbatim>\<open>null\<close>, so reading \<^verbatim>\<open>data.status\<close> throws.  \<open>JsonObject data\<close>:
  any other JSON value, seen through its string-valued properties (a property that is
  absent, \<^verbatim>\<open>null\<close> or not present on a non-object is \<open>None\<close>); the provider documents all
  four requested fields as strings.
\<close>

datatype provider_reply =
  FetchRejects | JsonRejects | JsonNull | JsonObject "string \<rightharpoonup> string"

datatype exn = NetworkFailure | SyntaxError | TypeError

text \<open>
  The effects of the handlers in the order in which they happen: a query of the link
  collection, an outbound request to the geolocation provider, the arrival of the
  provider's answer at the suspended resolver, the response, an insert into the click
  collection, a line written with \<^verbatim>\<open>console.error\<close>.
\<close>

datatype event =
  Query string
| Fetch string
| Answer provider_reply
| Respond response
| Insert click
| Log string

fun responses :: "event list \<Rightarrow> response list" where
  "responses [] = []"
| "responses (Respond r # es) = r # responses es"
| "responses (e # es) = responses es"

fun inserts :: "event list \<Rightarrow> click list" where
  "inserts [] = []"
| "inserts (Insert c # es) = c # inserts es"
| "inserts (e # es) = inserts es"

fun queries :: "event list \<Rightarrow> string list" where
  "queries [] = []"
| "queries (Query q # es) = q # queries es"
| "queries (e # es) = queries es"

fun fetches :: "event list \<Rightarrow> string list" where
  "fetches [] = []"
| "fetches (Fetch q # es) = q # fetches es"
| "fetches (e # es) = fetches es"

fun answers :: "event list \<Rightarrow> provider_reply list" where
  "answers [] = []"
| "answers (Answer a # es) = a # answers es"
| "answers (e # es) = answers es"

section \<open>Geolocation resolver (routes/redirect.js)\<close>

definition is_local_ip :: "string \<Rightarrow> bool" where
  "is_local_ip addr =
     (addr = ''127.0.0.1'' \<or> addr = ''::1'' \<or> addr = ''localhost''
      \<or> startsWith addr ''192.168.'' \<or> startsWith addr ''10.'')"

definition lookup_url :: "string \<Rightarrow> string" where
  "lookup_url addr = ''http://ip-api.com/json/'' @ addr @ ''?fields=status,country,regionName,city''"

text \<open>
  \<^verbatim>\<open>getGeolocation\<close> is an \<^verbatim>\<open>async\<close> function, so a call runs in two turns.  The first
  turn, inside the caller's, runs up to the first \<^verbatim>\<open>await\<close>: for a local address the
  function returns at once (\<open>Some\<close> of the triple its promise is resolved with); for any
  other it calls \<^verbatim>\<open>fetch\<close>, which sends the request, and is suspended (\<open>None\<close>).
\<close>

definition getGeolocation_call :: "string \<Rightarrow> event list \<times> geo option" where
  "getGeolocation_call addr =
     (if is_local_ip addr then ([], Some geo_local)
      else ([Fetch (lookup_url addr)], None))"

text \<open>
  The second turn starts when the provider's answer is in (the two awaits, of
  \<^verbatim>\<open>fetch\<close> and of \<^verbatim>\<open>response.json()\<close>, are taken together: nothing else of the request
  runs between them).  First the rest of the \<^verbatim>\<open>try\<close> block: the exception that leaves
  it, or the value it returns.
\<close>

definition getGeolocation_try :: "provider_reply \<Rightarrow> exn + geo" where
  "getGeolocation_try reply =
     (case reply of
        FetchRejects \<Rightarrow> Inl NetworkFailure
      | JsonRejects \<Rightarrow> Inl SyntaxError
      | JsonNull \<Rightarrow> Inl TypeError
      | JsonObject data \<Rightarrow>
          if data ''status'' = Some ''success''
          then Inr \<lparr>city = js_or (data ''city'') ''Unknown'',
                    country = js_or (data ''country'') ''Unknown'',
                    region = js_or (data ''regionName'') ''Unknown''\<rparr>
          else Inr geo_unknown)"

text \<open>
  Then the \<^verbatim>\<open>catch\<close> block, which logs and returns the Unknown triple.  The result is
  how the promise settles: \<open>Inl\<close> would be a rejection.
\<close>

definition getGeolocation_settle :: "provider_reply \<Rightarrow> event list \<times> (exn + geo)" where
  "getGeolocation_settle reply =
     (case getGeolocation_try reply of
        Inl error \<Rightarrow> ([Answer reply, Log ''Geolocation error:''], Inr geo_unknown)
      | Inr g \<Rightarrow> ([Answer reply], Inr g))"

text \<open>The whole call, from entry to the settling of its promise.\<close>

definition getGeolocation :: "string \<Rightarrow> provider_reply \<Rightarrow> event list \<times> (exn + geo)" where
  "getGeolocation addr reply =
     (case getGeolocation_call addr of
        (sent, Some g) \<Rightarrow> (sent, Inr g)
      | (sent, None) \<Rightarrow>
          (case getGeolocation_settle reply of (later, outcome) \<Rightarrow> (sent @ later, outcome)))"

section \<open>The framework's redirect\<close>

text \<open>
  \<^verbatim>\<open>res.redirect(302, url)\<close> of Express 4 sends the status with the \<^verbatim>\<open>Location\<close> header
  that \<^verbatim>\<open>res.location(url)\<close> sets: the string \<^verbatim>\<open>back\<close> stands for the request's
  \<^verbatim>\<open>Referrer\<close> (or \<^verbatim>\<open>Referer\<close>) header, or \<^verbatim>\<open>/\<close> without one, and the string is then
  passed through the framework's URL encoding.  The encoding is no code of this
  repository; it is a parameter of the model.
\<close>

definition res_location :: "(string \<Rightarrow> string) \<Rightarrow> request \<Rightarrow> string \<Rightarrow> string" where
  "res_location encodeUrl req target =
     encodeUrl (if target = ''back''
                then js_or (referrer_header req) (js_or (referer_header req) ''/'')
                else target)"

section \<open>GET /:shortCode (routes/redirect.js)\<close>

definition getClientIP :: "request \<Rightarrow> string" where
  "getClientIP req =
     (let fallback = js_or (connection_remoteAddress req)
                       (js_or (socket_remoteAddress req) (js_or (req_ip req) ''Unknown''))
      in case x_forwarded_for req of
           None \<Rightarrow> fallback
         | Some forwarded \<Rightarrow>
             if forwarded = [] then fallback else trim (split_comma_first forwarded))"

text \<open>The page sent for an unknown segment, without its indentation and inline styles.\<close>

definition link_not_found_page :: string where
  "link_not_found_page =
     ''<html><head><title>Link Not Found</title></head><body><div><h1>404</h1><p>Short link not found</p></div></body></html>''"

text \<open>
  What is left when the handler has returned: the resolver's promise, already resolved
  (\<open>Some\<close>) or pending on the provider's answer (\<open>None\<close>), and the callback registered
  on it with \<^verbatim>\<open>then\<close>, given by the document it passes to \<^verbatim>\<open>Click.create\<close>.
\<close>

record recorder =
  resolved :: "geo option"
  document :: "geo \<Rightarrow> click"

definition click_document :: "url \<Rightarrow> request \<Rightarrow> geo \<Rightarrow> click" where
  "click_document u req g =
     (let userAgent = js_or (user_agent req) []
      in \<lparr>city = city g, country = country g, region = region g,
          urlId = oid u,
          device = getDeviceType userAgent,
          browser = getBrowser userAgent,
          os = getOS userAgent,
          ip = getClientIP req,
          referer = js_or (referer_header req) ''Direct''\<rparr>)"

text \<open>
  The handler from the arrival of the request to its return, on the store as the query
  finds it.  \<^verbatim>\<open>getGeolocation(ip)\<close> is called, and runs its first turn, before
  \<^verbatim>\<open>res.redirect\<close>; its promise is not awaited, so the provider's answer is no input of
  this part.
\<close>

definition redirect_request ::
  "(string \<Rightarrow> string) \<Rightarrow> faults \<Rightarrow> store \<Rightarrow> request \<Rightarrow> event list \<times> recorder option" where
  "redirect_request encodeUrl f st req =
     (if shortCode req = ''api''
      then ([Respond (Json 404 False (Message ''Not found''))], None)
      else if findOne_rejects f
      then ([Query (shortCode req), Log ''Redirect error:'',
             Respond (Send 500 ''Error processing redirect'')], None)
      else case Url_findOne_or (urls st) (shortCode req) of
        None \<Rightarrow> ([Query (shortCode req), Respond (Send 404 link_not_found_page)], None)
      | Some u \<Rightarrow>
          (case getGeolocation_call (getClientIP req) of (sent, returned) \<Rightarrow>
            ([Query (shortCode req)] @ sent
               @ [Respond (Redirect 302 (res_location encodeUrl req (originalUrl u)))],
             Some \<lparr>resolved = returned, document = click_document u req\<rparr>)))"

text \<open>
  What runs after the handler has returned, on the store as it is then: the second turn
  of the resolver when the provider's answer arrives, if its promise is still pending,
  and then the callback.  A rejected promise would skip the callback; a rejected insert
  is caught and logged.
\<close>

definition record_click ::
  "faults \<Rightarrow> provider_reply \<Rightarrow> recorder \<Rightarrow> store \<Rightarrow> event list \<times> store" where
  "record_click f reply r st =
     (case (case resolved r of
              Some g \<Rightarrow> ([], Inr g)
            | None \<Rightarrow> getGeolocation_settle reply) of
        (later, Inl error) \<Rightarrow> (later, st)
      | (later, Inr g) \<Rightarrow>
          if create_rejects f then (later @ [Log ''Error saving click:''], st)
          else (later @ [Insert (document r g)], st\<lparr>clicks := clicks st @ [document r g]\<rparr>))"

text \<open>One request served with nothing else in between: the handler, then what it left.\<close>

definition redirect_handler ::
  "(string \<Rightarrow> string) \<Rightarrow> faults \<Rightarrow> provider_reply \<Rightarrow> store \<Rightarrow> request
     \<Rightarrow> event list \<times> store" where
  "redirect_handler encodeUrl f reply st req =
     (case redirect_request encodeUrl f st req of
        (es, None) \<Rightarrow> (es, st)
      | (es, Some r) \<Rightarrow> (case record_click f reply r st of (es', st') \<Rightarrow> (es @ es', st')))"

section \<open>GET /api/lookup/:shortCode (routes/redirect.js)\<close>

definition lookup_handler :: "faults \<Rightarrow> store \<Rightarrow> string \<Rightarrow> event list" where
  "lookup_handler f st code =
     (if findOne_rejects f
      then [Query code, Log ''Lookup error:'',
            Respond (Json 500 False (Message (js_or (Some (error_message f)) ''Error looking up URL'')))]
      else case Url_findOne_or (urls st) code of
        None \<Rightarrow> [Query code, Respond (Json 404 False (Message ''Short link not found''))]
      | Some u \<Rightarrow> [Query code, Respond (Json 200 True (LinkData (oid u) (originalUrl u)))])"

section \<open>DELETE /api/urls/:id (routes/urls.js)\<close>

fun delete_first :: "('a \<Rightarrow> bool) \<Rightarrow> 'a list \<Rightarrow> 'a list" where
  "delete_first P [] = []"
| "delete_first P (x # xs) = (if P x then xs else x # delete_first P xs)"

text \<open>
  The handler behind the authentication middleware: \<open>user\<close> is \<^verbatim>\<open>req.user._id\<close> and
  \<open>ident\<close> is \<^verbatim>\<open>req.params.id\<close> cast to an object id (a string that is no object id
  makes \<^verbatim>\<open>findOne\<close> reject).  It awaits three store operations one after the other, and
  each runs on the store as it is at that moment; they are modelled one by one.
\<close>

definition delete_failed :: "faults \<Rightarrow> response" where
  "delete_failed f = Json 500 False (Message (js_or (Some (error_message f)) ''Error deleting URL''))"

text \<open>\<^verbatim>\<open>Url.findOne({ _id, userId })\<close>: a response that ends the request, or the link.\<close>

definition delete_find :: "faults \<Rightarrow> store \<Rightarrow> nat \<Rightarrow> nat \<Rightarrow> response + url" where
  "delete_find f st user ident =
     (if findOne_rejects f then Inl (delete_failed f)
      else case find (\<lambda>u. oid u = ident \<and> userId u = user) (urls st) of
        None \<Rightarrow> Inl (Json 404 False (Message ''URL not found''))
      | Some u \<Rightarrow> Inr u)"

text \<open>
  \<^verbatim>\<open>deleteImage\<close>, if the link has a QR image (it logs and rethrows what the image host
  throws), then \<^verbatim>\<open>Click.deleteMany({ urlId: url._id })\<close>.
\<close>

definition delete_clicks :: "faults \<Rightarrow> url \<Rightarrow> store \<Rightarrow> response + store" where
  "delete_clicks f u st =
     (if qrPublicId u \<noteq> [] \<and> deleteImage_rejects f then Inl (delete_failed f)
      else if deleteMany_rejects f then Inl (delete_failed f)
      else Inr (st\<lparr>clicks := filter (\<lambda>c. urlId c \<noteq> oid u) (clicks st)\<rparr>))"

text \<open>\<^verbatim>\<open>url.deleteOne()\<close>, which removes the document with the link's \<^verbatim>\<open>_id\<close>, and the response.\<close>

definition delete_link :: "faults \<Rightarrow> url \<Rightarrow> store \<Rightarrow> response \<times> store" where
  "delete_link f u st =
     (if deleteOne_rejects f then (delete_failed f, st)
      else (Json 200 True (Message ''URL deleted successfully''),
            st\<lparr>urls := delete_first (\<lambda>v. oid v = oid u) (urls st)\<rparr>))"

text \<open>
  The whole request.  \<open>meanwhile\<close> is what other requests and callbacks do to the store
  between the query and \<^verbatim>\<open>deleteMany\<close>, \<open>meanwhile'\<close> what they do between
  \<^verbatim>\<open>deleteMany\<close> and \<^verbatim>\<open>deleteOne\<close>; with the identity for both, the request is served
  with nothing in between.  The result is the response and the store when it is sent.
\<close>

definition delete_handler ::
  "faults \<Rightarrow> (store \<Rightarrow> store) \<Rightarrow> (store \<Rightarrow> store) \<Rightarrow> store \<Rightarrow> nat \<Rightarrow> nat
     \<Rightarrow> response \<times> store" where
  "delete_handler f meanwhile meanwhile' st user ident =
     (case delete_find f st user ident of
        Inl r \<Rightarrow> (r, st)
      | Inr u \<Rightarrow>
          (case delete_clicks f u (meanwhile st) of
             Inl r \<Rightarrow> (r, meanwhile st)
           | Inr st1 \<Rightarrow> delete_link f u (meanwhile' st1)))"

section \<open>POST /api/urls (routes/urls.js)\<close>

record create_body =
  body_title :: "string option"
  body_longUrl :: "string option"
  body_customUrl :: "string option"

text \<open>
  The handler behind the authentication and upload middleware.  \<open>generated\<close> is the
  string that \<^verbatim>\<open>Math.random().toString(36).substr(2, 6)\<close> produced, \<open>fresh\<close> the object id
  the new document gets, \<open>file\<close> the uploaded QR image, if any, given by what the image
  host returns for it (url and public id).  The alias is checked on the store as the
  handler finds it; \<open>meanwhile\<close> is what other requests do to the store between that
  check and \<^verbatim>\<open>Url.create\<close>.  \<^verbatim>\<open>Url.create\<close> rejects when a required string is missing
  or empty (the title after trimming), when the generated short code is already some
  link's \<^verbatim>\<open>shortUrl\<close> (the only unique index of the schema), or when the store fails.
  The alias is compared with stored aliases and short codes; the generated short code is
  compared with nothing but stored short codes.
\<close>

definition create_handler ::
  "faults \<Rightarrow> (store \<Rightarrow> store) \<Rightarrow> store \<Rightarrow> nat \<Rightarrow> create_body \<Rightarrow> string \<Rightarrow> nat
     \<Rightarrow> (string \<times> string) option \<Rightarrow> response \<times> store" where
  "create_handler f meanwhile st user b generated fresh file =
     (let failed = Json 500 False (Message (js_or (Some (error_message f)) ''Error creating short URL''));
          alias = (case body_customUrl b of
                     None \<Rightarrow> None
                   | Some a \<Rightarrow> if a = [] then None else Some a)
      in if alias \<noteq> None \<and> findOne_rejects f then (failed, st)
      else if (case alias of
                 None \<Rightarrow> False
               | Some a \<Rightarrow> find (\<lambda>u. customUrl u = Some a \<or> shortUrl u = a) (urls st) \<noteq> None)
        then (Json 400 False (Message ''Custom URL is already taken''), st)
      else if file \<noteq> None \<and> uploadImage_rejects f then (failed, meanwhile st)
      else let qrData = (case file of None \<Rightarrow> ([], []) | Some d \<Rightarrow> d);
               u = \<lparr>oid = fresh, userId = user,
                    title = trim (js_or (body_title b) []),
                    originalUrl = js_or (body_longUrl b) [],
                    shortUrl = generated,
                    customUrl = alias,
                    qr = fst qrData, qrPublicId = snd qrData\<rparr>;
               st' = meanwhile st
        in if title u = [] \<or> originalUrl u = [] \<or> shortUrl u = []
              \<or> list_ex (\<lambda>v. shortUrl v = generated) (urls st') \<or> create_rejects f
           then (failed, st')
           else (Json 201 True (Links [u]), st'\<lparr>urls := urls st' @ [u]\<rparr>))"

section \<open>POST /api/clicks (routes/clicks.js)\<close>

record click_body =
  body_urlId :: "nat option"
  body_city :: "string option"
  body_country :: "string option"
  body_region :: "string option"
  body_device :: "string option"
  body_browser :: "string option"
  body_os :: "string option"
  body_ip :: "string option"
  body_referer :: "string option"

text \<open>
  The public endpoint that stores a click.  \<^verbatim>\<open>urlId\<close> is required by the schema, so
  \<^verbatim>\<open>Click.create\<close> rejects without it; nothing looks the link up.
\<close>

definition store_click_handler :: "faults \<Rightarrow> store \<Rightarrow> click_body \<Rightarrow> response \<times> store" where
  "store_click_handler f st b =
     (let failed = Json 500 False (Message (js_or (Some (error_message f)) ''Error storing click''))
      in case body_urlId b of
        None \<Rightarrow> (failed, st)
      | Some i \<Rightarrow>
          if create_rejects f then (failed, st)
          else let c = \<lparr>city = js_or (body_city b) ''Unknown'',
                        country = js_or (body_country b) ''Unknown'',
                        region = js_or (body_region b) ''Unknown'',
                        urlId = i,
                        device = js_or (body_device b) ''desktop'',
                        browser = js_or (body_browser b) ''Unknown'',
                        os = js_or (body_os b) ''Unknown'',
                        ip = js_or (body_ip b) ''Unknown'',
                        referer = js_or (body_referer b) ''Direct''\<rparr>
            in (Json 201 True (ClickData c), st\<lparr>clicks := clicks st @ [c]\<rparr>))"

section \<open>Properties of stores\<close>

text \<open>The keys under which a link can be requested.\<close>

definition keys_of :: "url \<Rightarrow> string list" where
  "keys_of u = shortUrl u # (case customUrl u of None \<Rightarrow> [] | Some a \<Rightarrow> [a])"

text \<open>No key belongs to two stored links (the uniqueness the data model asks for).\<close>

definition unambiguous :: "url list \<Rightarrow> bool" where
  "unambiguous us =
     (\<forall>a \<in> set us. \<forall>b \<in> set us. (\<exists>k \<in> set (keys_of a). k \<in> set (keys_of b)) \<longrightarrow> a = b)"

text \<open>Every click refers to a stored link.\<close>

definition no_orphans :: "store \<Rightarrow> bool" where
  "no_orphans st = (\<forall>c \<in> set (clicks st). urlId c \<in> oid ` set (urls st))"

section \<open>Example data\<close>

text \<open>Two stored links, the second with a custom alias, and a request that came through a proxy.\<close>

definition ex_link :: url where
  "ex_link = \<lparr>oid = 11, userId = 7, title = ''My site'', originalUrl = ''https://example.com/page'',
              shortUrl = ''abc123'', customUrl = Some ''mysite'', qr = [], qrPublicId = []\<rparr>"

definition ex_other :: url where
  "ex_other = \<lparr>oid = 12, userId = 8, title = ''Docs'', originalUrl = ''https://example.org/docs'',
               shortUrl = ''k3x9qa'', customUrl = None, qr = [], qrPublicId = []\<rparr>"

definition ex_store :: store where
  "ex_store = \<lparr>urls = [ex_other, ex_link], clicks = []\<rparr>"

definition ex_request :: "string \<Rightarrow> request" where
  "ex_request code = \<lparr>shortCode = code, user_agent = None, referer_header = None,
       referrer_header = None,
       x_forwarded_for = Some ''203.0.113.9, 10.0.0.1'', connection_remoteAddress = Some ''10.0.0.1'',
       socket_remoteAddress = None, req_ip = None\<rparr>"

text \<open>
  The framework's encoding on the example addresses: they consist of letters, digits and
  the characters \<^verbatim>\<open>: / . -\<close>, which it leaves alone.
\<close>

definition ex_encode :: "string \<Rightarrow> string" where
  "ex_encode s = s"

text \<open>
  A link whose alias is the reserved segment, a link whose destination is the string
  \<^verbatim>\<open>back\<close>, a later link whose generated short code is the alias of \<open>ex_link\<close>, a recorded
  click on \<open>ex_link\<close>, the body of a request that stores one, and that request as what
  happens to the store while another request waits.
\<close>

definition ex_api_link :: url where
  "ex_api_link = \<lparr>oid = 13, userId = 7, title = ''API docs'',
                  originalUrl = ''https://example.com/api-docs'',
                  shortUrl = ''p0q1r2'', customUrl = Some ''api'', qr = [], qrPublicId = []\<rparr>"

definition ex_back_link :: url where
  "ex_back_link = \<lparr>oid = 15, userId = 7, title = ''Back'', originalUrl = ''back'',
                   shortUrl = ''b4ck00'', customUrl = None, qr = [], qrPublicId = []\<rparr>"

text \<open>
  A link whose destination has a space, and an encoding that, like the framework's, writes
  a space as \<^verbatim>\<open>%20\<close> and leaves the other characters of that destination alone.
\<close>

definition ex_spaced_link :: url where
  "ex_spaced_link = \<lparr>oid = 16, userId = 7, title = ''Spaced'',
                     originalUrl = ''https://example.com/a b'',
                     shortUrl = ''sp4c3d'', customUrl = None, qr = [], qrPublicId = []\<rparr>"

definition ex_encode_space :: "string \<Rightarrow> string" where
  "ex_encode_space s = concat (map (\<lambda>c. if c = CHR '' '' then ''%20'' else [c]) s)"

definition ex_shadowed :: url where
  "ex_shadowed = \<lparr>oid = 14, userId = 9, title = ''Other'',
                  originalUrl = ''https://example.net/other'',
                  shortUrl = ''mysite'', customUrl = None, qr = [], qrPublicId = []\<rparr>"

definition ex_click :: click where
  "ex_click = \<lparr>city = ''Pune'', country = ''India'', region = ''Maharashtra'', urlId = 11,
               device = ''mobile'', browser = ''Chrome'', os = ''Android'', ip = ''203.0.113.9'',
               referer = ''Direct''\<rparr>"

definition ex_body :: click_body where
  "ex_body = \<lparr>body_urlId = Some 11, body_city = None, body_country = None, body_region = None,
              body_device = None, body_browser = None, body_os = None, body_ip = None,
              body_referer = None\<rparr>"

definition ex_clicked_store :: store where
  "ex_clicked_store = \<lparr>urls = [ex_other, ex_link], clicks = [ex_click]\<rparr>"

definition ex_click_stored_meanwhile :: "store \<Rightarrow> store" where
  "ex_click_stored_meanwhile st = snd (store_click_handler no_faults st ex_body)"

definition nothing_meanwhile :: "store \<Rightarrow> store" where
  "nothing_meanwhile st = st"

text \<open>
  Two users post the same alias at about the same time: the second request as what
  happens to the store between the first one's check of the alias and its insert.
\<close>

definition ex_promo_body :: create_body where
  "ex_promo_body = \<lparr>body_title = Some ''Promo'', body_longUrl = Some ''https://example.com/promo'',
                    body_customUrl = Some ''promo''\<rparr>"

definition ex_same_alias_posted_meanwhile :: "store \<Rightarrow> store" where
  "ex_same_alias_posted_meanwhile st =
     snd (create_handler no_faults nothing_meanwhile st 8 ex_promo_body ''q7w8e9'' 21 None)"

section \<open>The geolocation resolver\<close>

lemma getGeolocation_settle_resolves: "\<exists>later g. getGeolocation_settle reply = (later, Inr g)"
  by (simp add: getGeolocation_settle_def split: sum.splits)

lemma getGeolocation_resolves: "\<exists>g. snd (getGeolocation addr reply) = Inr g"
  by (simp add: getGeolocation_def getGeolocation_call_def getGeolocation_settle_def
      split: sum.splits)

lemma getGeolocation_fetches:
  "fetches (fst (getGeolocation addr reply)) = (if is_local_ip addr then [] else [lookup_url addr])"
  by (simp add: getGeolocation_def getGeolocation_call_def getGeolocation_settle_def
      split: sum.splits)

lemma getGeolocation_silent: "fst (getGeolocation addr reply) = [] \<longleftrightarrow> is_local_ip addr"
  by (simp add: getGeolocation_def getGeolocation_call_def getGeolocation_settle_def
      split: sum.splits)

lemma getGeolocation_remote:
  "\<not> is_local_ip addr \<Longrightarrow>
   snd (getGeolocation addr reply) =
     (case getGeolocation_try reply of Inl error \<Rightarrow> Inr geo_unknown | Inr g \<Rightarrow> Inr g)"
  by (simp add: getGeolocation_def getGeolocation_call_def getGeolocation_settle_def
      split: sum.splits)

text \<open>
  C4.  The resolver never rejects: for every address and every behaviour of the provider
  its promise resolves with a triple.  When the lookup is made and fails (the request
  fails, the body is not JSON or is \<^verbatim>\<open>null\<close>, or the status is not \<^verbatim>\<open>success\<close>) the
  triple is Unknown/Unknown/Unknown.  When the provider reports success, each of city,
  country and region is the provider's field, or "Unknown" where the field is missing
  (or empty).
\<close>

theorem geolocation_absorbs_failures:
  "(\<exists>sent g. getGeolocation addr reply = (sent, Inr g))
   \<and> (\<not> is_local_ip addr \<longrightarrow>
        (reply = FetchRejects \<or> reply = JsonRejects \<or> reply = JsonNull
          \<or> (\<exists>d. reply = JsonObject d \<and> d ''status'' \<noteq> Some ''success'')) \<longrightarrow>
        snd (getGeolocation addr reply) = Inr geo_unknown)
   \<and> (\<not> is_local_ip addr \<longrightarrow> reply = JsonObject d \<longrightarrow> d ''status'' = Some ''success'' \<longrightarrow>
        (\<exists>g. snd (getGeolocation addr reply) = Inr g
          \<and> city g = (case d ''city'' of None \<Rightarrow> ''Unknown''
                        | Some s \<Rightarrow> if s = [] then ''Unknown'' else s)
          \<and> country g = (case d ''country'' of None \<Rightarrow> ''Unknown''
                        | Some s \<Rightarrow> if s = [] then ''Unknown'' else s)
          \<and> region g = (case d ''regionName'' of None \<Rightarrow> ''Unknown''
                        | Some s \<Rightarrow> if s = [] then ''Unknown'' else s)))"
proof (intro conjI impI)
  obtain g where "snd (getGeolocation addr reply) = Inr g"
    using getGeolocation_resolves by blast
  then show "\<exists>sent g. getGeolocation addr reply = (sent, Inr g)"
    by (cases "getGeolocation addr reply") auto
next
  assume "\<not> is_local_ip addr"
    and "reply = FetchRejects \<or> reply = JsonRejects \<or> reply = JsonNull
          \<or> (\<exists>d. reply = JsonObject d \<and> d ''status'' \<noteq> Some ''success'')"
  then show "snd (getGeolocation addr reply) = Inr geo_unknown"
    by (auto simp add: getGeolocation_remote getGeolocation_try_def)
next
  assume "\<not> is_local_ip addr" and "reply = JsonObject d" and "d ''status'' = Some ''success''"
  then show "\<exists>g. snd (getGeolocation addr reply) = Inr g
          \<and> city g = (case d ''city'' of None \<Rightarrow> ''Unknown''
                        | Some s \<Rightarrow> if s = [] then ''Unknown'' else s)
          \<and> country g = (case d ''country'' of None \<Rightarrow> ''Unknown''
                        | Some s \<Rightarrow> if s = [] then ''Unknown'' else s)
          \<and> region g = (case d ''regionName'' of None \<Rightarrow> ''Unknown''
                        | Some s \<Rightarrow> if s = [] then ''Unknown'' else s)"
    by (simp add: getGeolocation_remote getGeolocation_try_def split: option.splits)
qed

theorem geolocation_absorbs_failures_witness:
  "\<not> is_local_ip ''8.8.8.8''
   \<and> snd (getGeolocation ''8.8.8.8'' FetchRejects) = Inr geo_unknown
   \<and> snd (getGeolocation ''8.8.8.8'' (JsonObject [''status'' \<mapsto> ''fail''])) = Inr geo_unknown
   \<and> snd (getGeolocation ''8.8.8.8''
        (JsonObject [''status'' \<mapsto> ''success'', ''country'' \<mapsto> ''United States'']))
      = Inr \<lparr>city = ''Unknown'', country = ''United States'', region = ''Unknown''\<rparr>"
proof -
  have n: "\<not> is_local_ip ''8.8.8.8''"
    by (simp add: is_local_ip_def)
  have a: "snd (getGeolocation ''8.8.8.8'' FetchRejects) = Inr geo_unknown"
    using geolocation_absorbs_failures [of "''8.8.8.8''" FetchRejects] n by simp
  have b: "snd (getGeolocation ''8.8.8.8'' (JsonObject [''status'' \<mapsto> ''fail''])) = Inr geo_unknown"
    using geolocation_absorbs_failures [of "''8.8.8.8''" "JsonObject [''status'' \<mapsto> ''fail'']"] n
    by simp
  have c: "snd (getGeolocation ''8.8.8.8''
        (JsonObject [''status'' \<mapsto> ''success'', ''country'' \<mapsto> ''United States'']))
      = Inr \<lparr>city = ''Unknown'', country = ''United States'', region = ''Unknown''\<rparr>"
    using geolocation_absorbs_failures [of "''8.8.8.8''"
        "JsonObject [''status'' \<mapsto> ''success'', ''country'' \<mapsto> ''United States'']"
        "[''status'' \<mapsto> ''success'', ''country'' \<mapsto> ''United States'']"] n
    by auto
  from n a b c show ?thesis by simp
qed

lemma js_or_eq_iff:
  "js_or x ''Unknown'' = ''Local'' \<longleftrightarrow> x = Some ''Local''"
  by (cases x) auto

lemma startsWith_append: "startsWith s p \<longleftrightarrow> (\<exists>t. s = p @ t)"
  by (induction s p rule: startsWith.induct) auto

lemma startsWith_172_not_local: "startsWith addr ''172.16.'' \<Longrightarrow> \<not> is_local_ip addr"
proof -
  assume "startsWith addr ''172.16.''"
  then obtain t where "addr = ''172.16.'' @ t"
    unfolding startsWith_append by blast
  then show ?thesis
    by (simp add: is_local_ip_def)
qed

lemma local_only_from_provider:
  assumes "\<not> is_local_ip addr" and "snd (getGeolocation addr reply) = Inr geo_local"
  shows "\<exists>d. reply = JsonObject d \<and> d ''status'' = Some ''success'' \<and> d ''city'' = Some ''Local''
                \<and> d ''country'' = Some ''Local'' \<and> d ''regionName'' = Some ''Local''"
proof (cases reply)
  case (JsonObject d)
  with assms show ?thesis
    by (simp add: getGeolocation_remote getGeolocation_try_def geo_local_def geo_unknown_def
        js_or_eq_iff split: if_splits)
qed (use assms in \<open>simp_all add: getGeolocation_remote getGeolocation_try_def geo_local_def geo_unknown_def\<close>)

text \<open>
  C10 (as amended).  The resolver skips the lookup, with no effect at all, exactly for the
  literals 127.0.0.1, ::1 and localhost and for addresses that start with 192.168. or
  10.  For every other address, those starting with 172.16. among them, it sends the
  lookup request for that address, and its result is the Local triple only when the
  provider's own successful answer carries "Local" as city, country and regionName.
\<close>

theorem local_scope_exact:
  "(fst (getGeolocation addr reply) = [] \<longleftrightarrow>
      addr = ''127.0.0.1'' \<or> addr = ''::1'' \<or> addr = ''localhost''
      \<or> startsWith addr ''192.168.'' \<or> startsWith addr ''10.'')
   \<and> (startsWith addr ''172.16.'' \<longrightarrow>
        fetches (fst (getGeolocation addr reply)) = [lookup_url addr])
   \<and> (fst (getGeolocation addr reply) \<noteq> [] \<longrightarrow>
        fetches (fst (getGeolocation addr reply)) = [lookup_url addr]
        \<and> (snd (getGeolocation addr reply) = Inr geo_local \<longrightarrow>
             (\<exists>d. reply = JsonObject d \<and> d ''status'' = Some ''success'' \<and> d ''city'' = Some ''Local''
                \<and> d ''country'' = Some ''Local'' \<and> d ''regionName'' = Some ''Local'')))"
proof (intro conjI impI)
  show "(fst (getGeolocation addr reply) = []) =
    (addr = ''127.0.0.1'' \<or> addr = ''::1'' \<or> addr = ''localhost''
      \<or> startsWith addr ''192.168.'' \<or> startsWith addr ''10.'')"
    unfolding getGeolocation_silent is_local_ip_def by simp
next
  assume "startsWith addr ''172.16.''"
  then show "fetches (fst (getGeolocation addr reply)) = [lookup_url addr]"
    using startsWith_172_not_local [of addr] by (simp add: getGeolocation_fetches)
next
  assume "fst (getGeolocation addr reply) \<noteq> []"
  then show "fetches (fst (getGeolocation addr reply)) = [lookup_url addr]"
    by (simp add: getGeolocation_silent getGeolocation_fetches)
next
  assume "fst (getGeolocation addr reply) \<noteq> []"
    and "snd (getGeolocation addr reply) = Inr geo_local"
  then show "\<exists>d. reply = JsonObject d \<and> d ''status'' = Some ''success'' \<and> d ''city'' = Some ''Local''
                \<and> d ''country'' = Some ''Local'' \<and> d ''regionName'' = Some ''Local''"
    using local_only_from_provider [of addr reply] by (simp add: getGeolocation_silent)
qed

theorem local_scope_exact_witness:
  "startsWith ''172.16.0.1'' ''172.16.''
   \<and> fetches (fst (getGeolocation ''172.16.0.1'' FetchRejects)) = [lookup_url ''172.16.0.1'']
   \<and> snd (getGeolocation ''172.16.0.1'' FetchRejects) \<noteq> Inr geo_local
   \<and> fst (getGeolocation ''10.0.0.7'' FetchRejects) = []"
proof -
  note t = local_scope_exact [of "''172.16.0.1''" FetchRejects]
  have p: "startsWith ''172.16.0.1'' ''172.16.''" by simp
  have q: "startsWith ''10.0.0.7'' ''10.''" by simp
  have a: "fetches (fst (getGeolocation ''172.16.0.1'' FetchRejects)) = [lookup_url ''172.16.0.1'']"
    by (rule t [THEN conjunct2, THEN conjunct1, THEN mp, OF p])
  have ne: "fst (getGeolocation ''172.16.0.1'' FetchRejects) \<noteq> []"
    using a by auto
  have "snd (getGeolocation ''172.16.0.1'' FetchRejects) = Inr geo_local \<longrightarrow>
      (\<exists>d. FetchRejects = JsonObject d \<and> d ''status'' = Some ''success'' \<and> d ''city'' = Some ''Local''
                \<and> d ''country'' = Some ''Local'' \<and> d ''regionName'' = Some ''Local'')"
    by (rule t [THEN conjunct2, THEN conjunct2, THEN mp, OF ne, THEN conjunct2])
  then have b: "snd (getGeolocation ''172.16.0.1'' FetchRejects) \<noteq> Inr geo_local"
    by simp
  have c: "fst (getGeolocation ''10.0.0.7'' FetchRejects) = []"
    using local_scope_exact [of "''10.0.0.7''" FetchRejects, THEN conjunct1] q by simp
  show ?thesis
    by (intro conjI p a b c)
qed

text \<open>
  The claim as written also says that for the other addresses the Local triple is never
  returned.  An address in 172.16.0.0/12 for which the provider answers success with
  "Local" in all three fields is not skipped, and the resolver returns the Local triple.
\<close>

theorem local_triple_from_provider:
  "\<not> (''172.16.0.1'' = ''127.0.0.1'' \<or> ''172.16.0.1'' = ''::1'' \<or> ''172.16.0.1'' = ''localhost''
      \<or> startsWith ''172.16.0.1'' ''192.168.'' \<or> startsWith ''172.16.0.1'' ''10.'')
   \<and> fetches (fst (getGeolocation ''172.16.0.1''
        (JsonObject [''status'' \<mapsto> ''success'', ''city'' \<mapsto> ''Local'',
                     ''country'' \<mapsto> ''Local'', ''regionName'' \<mapsto> ''Local''])))
      = [lookup_url ''172.16.0.1'']
   \<and> snd (getGeolocation ''172.16.0.1''
        (JsonObject [''status'' \<mapsto> ''success'', ''city'' \<mapsto> ''Local'',
                     ''country'' \<mapsto> ''Local'', ''regionName'' \<mapsto> ''Local'']))
      = Inr geo_local"
proof -
  have n: "\<not> is_local_ip ''172.16.0.1''"
    by (simp add: is_local_ip_def)
  then show ?thesis
    by (simp add: getGeolocation_fetches getGeolocation_remote getGeolocation_try_def
        geo_local_def)
qed

section \<open>The device classifier\<close>

text \<open>
  Matching under the \<^verbatim>\<open>i\<close> flag is plain search after canonicalising both sides, which
  is how the concrete user agents below are evaluated.
\<close>

lemma matches_here_i_canon:
  "matches_here_i s p = startsWith (map canonicalize s) (map canonicalize p)"
  by (induction s p rule: matches_here_i.induct) simp_all

lemma search_i_canon:
  "search_i s p = str_includes (map canonicalize s) (map canonicalize p)"
  by (induction s) (simp_all add: matches_here_i_canon)

lemma regex_test_i_canon:
  "regex_test_i alts s = list_ex (\<lambda>p. str_includes (map canonicalize s) (map canonicalize p)) alts"
  by (simp add: regex_test_i_def list_ex_iff search_i_canon)

lemma tablet_agent_canon:
  "map canonicalize (toLowerCase ''Mozilla/5.0 (Tablet; rv:26.0) Gecko/26.0 Firefox/26.0'')
   = ''MOZILLA/5.0 (TABLET; RV:26.0) GECKO/26.0 FIREFOX/26.0''"
  by code_simp

lemma android_agent_canon:
  "map canonicalize (toLowerCase ''Mozilla/5.0 (Linux; Android 13)'')
   = ''MOZILLA/5.0 (LINUX; ANDROID 13)''"
  by code_simp

lemma patterns_canon:
  "map (map canonicalize) [''mobile'', ''android'', ''iphone'', ''ipad'', ''ipod'',
                           ''blackberry'', ''iemobile'', ''opera mini'', ''tablet'']
    = [''MOBILE'', ''ANDROID'', ''IPHONE'', ''IPAD'', ''IPOD'',
       ''BLACKBERRY'', ''IEMOBILE'', ''OPERA MINI'', ''TABLET'']"
  by code_simp

lemma no_token_in_empty:
  "\<not> regex_test_i [''mobile'', ''android'', ''iphone'', ''ipad'', ''ipod'',
                     ''blackberry'', ''iemobile'', ''opera mini''] (toLowerCase [])"
  by (simp add: regex_test_i_def toLowerCase_def)

text \<open>
  C7 (as amended).  The combined pattern is tested first and the classifier answers
  "mobile" for every match in that combined set, so a user agent that names "ipad" is
  always "mobile" and the \<^verbatim>\<open>ipad\<close> alternative of the tablet-only test is dead.  The
  \<^verbatim>\<open>tablet\<close> alternative is not: the answer is "tablet" exactly for a non-empty user
  agent that contains "tablet" (in any letter case) and none of the tokens of the
  combined pattern.  Every other user agent, the empty one included, is "desktop"; there
  is no fourth answer.
\<close>

theorem device_classes:
  "getDeviceType ua \<in> {''mobile'', ''tablet'', ''desktop''}
   \<and> (regex_test_i [''mobile'', ''android'', ''iphone'', ''ipad'', ''ipod'',
                     ''blackberry'', ''iemobile'', ''opera mini''] (toLowerCase ua)
        \<longleftrightarrow> getDeviceType ua = ''mobile'')
   \<and> (search_i (toLowerCase ua) ''ipad'' \<longrightarrow> getDeviceType ua = ''mobile'')
   \<and> (getDeviceType ua = ''tablet'' \<longleftrightarrow>
        ua \<noteq> [] \<and> search_i (toLowerCase ua) ''tablet''
        \<and> \<not> regex_test_i [''mobile'', ''android'', ''iphone'', ''ipad'', ''ipod'',
                            ''blackberry'', ''iemobile'', ''opera mini''] (toLowerCase ua))
   \<and> (getDeviceType ua = ''desktop'' \<longleftrightarrow>
        ua = [] \<or> (\<not> search_i (toLowerCase ua) ''tablet''
        \<and> \<not> regex_test_i [''mobile'', ''android'', ''iphone'', ''ipad'', ''ipod'',
                            ''blackberry'', ''iemobile'', ''opera mini''] (toLowerCase ua)))"
proof (cases "ua = []")
  case True
  then show ?thesis
    using no_token_in_empty by (simp add: getDeviceType_def toLowerCase_def)
next
  case False
  define combined where "combined = regex_test_i [''mobile'', ''android'', ''iphone'', ''ipad'',
      ''ipod'', ''blackberry'', ''iemobile'', ''opera mini''] (toLowerCase ua)"
  have ipad: "search_i (toLowerCase ua) ''ipad'' \<Longrightarrow> combined"
    by (simp add: combined_def regex_test_i_def)
  have d: "getDeviceType ua =
      (if combined then ''mobile''
       else if search_i (toLowerCase ua) ''tablet'' \<or> search_i (toLowerCase ua) ''ipad''
         then ''tablet'' else ''desktop'')"
    using False by (simp add: getDeviceType_def combined_def Let_def regex_test_i_def)
  show ?thesis
    unfolding combined_def [symmetric] d using ipad False by auto
qed

theorem device_classes_witness:
  "regex_test_i [''mobile'', ''android'', ''iphone'', ''ipad'', ''ipod'',
                 ''blackberry'', ''iemobile'', ''opera mini'']
     (toLowerCase ''Mozilla/5.0 (Linux; Android 13)'')
   \<and> getDeviceType ''Mozilla/5.0 (Linux; Android 13)'' = ''mobile''
   \<and> search_i (toLowerCase ''iPad'') ''ipad'' \<and> getDeviceType ''iPad'' = ''mobile''"
proof -
  have m: "regex_test_i [''mobile'', ''android'', ''iphone'', ''ipad'', ''ipod'',
                 ''blackberry'', ''iemobile'', ''opera mini'']
     (toLowerCase ''Mozilla/5.0 (Linux; Android 13)'')"
    using patterns_canon by (simp add: regex_test_i_canon android_agent_canon)
  have a: "getDeviceType ''Mozilla/5.0 (Linux; Android 13)'' = ''mobile''"
    by (rule device_classes [of "''Mozilla/5.0 (Linux; Android 13)''",
          THEN conjunct2, THEN conjunct1, THEN iffD1, OF m])
  have "map canonicalize (toLowerCase ''iPad'') = ''IPAD''" by code_simp
  moreover have "map canonicalize ''ipad'' = ''IPAD''" by code_simp
  ultimately have i: "search_i (toLowerCase ''iPad'') ''ipad''"
    by (simp add: search_i_canon)
  have b: "getDeviceType ''iPad'' = ''mobile''"
    by (rule device_classes [of "''iPad''", THEN conjunct2, THEN conjunct2, THEN conjunct1,
          THEN mp, OF i])
  show ?thesis
    by (intro conjI m a i b)
qed

text \<open>
  The claim as written says "tablet" is never returned.  The user agent of a Firefox OS
  tablet contains "Tablet" and none of the combined pattern's tokens, and is classified
  "tablet".
\<close>

theorem tablet_reachable:
  "getDeviceType ''Mozilla/5.0 (Tablet; rv:26.0) Gecko/26.0 Firefox/26.0'' = ''tablet''"
  using patterns_canon by (simp add: getDeviceType_def regex_test_i_canon tablet_agent_canon)

section \<open>The short-code resolver\<close>

lemma findOne_or_Some:
  "Url_findOne_or us code = Some l \<Longrightarrow> l \<in> set us \<and> (shortUrl l = code \<or> customUrl l = Some code)"
  by (auto simp add: Url_findOne_or_def matches_code_def find_Some_iff)

lemma findOne_or_None:
  "Url_findOne_or us code = None \<longleftrightarrow> (\<forall>l \<in> set us. shortUrl l \<noteq> code \<and> customUrl l \<noteq> Some code)"
  by (auto simp add: Url_findOne_or_def matches_code_def find_None_iff)

lemma key_of_match:
  "shortUrl l = code \<or> customUrl l = Some code \<Longrightarrow> code \<in> set (keys_of l)"
  by (auto simp add: keys_of_def)

lemma findOne_or_unique:
  assumes "unambiguous us" and "l \<in> set us" and "shortUrl l = code \<or> customUrl l = Some code"
  shows "Url_findOne_or us code = Some l"
proof (cases "Url_findOne_or us code")
  case None
  with assms(2,3) show ?thesis
    unfolding findOne_or_None by blast
next
  case (Some l')
  then have "l' \<in> set us" and "shortUrl l' = code \<or> customUrl l' = Some code"
    using findOne_or_Some by blast+
  then have "code \<in> set (keys_of l')" and "code \<in> set (keys_of l)"
    using assms(3) key_of_match by blast+
  with assms(1,2) \<open>l' \<in> set us\<close> have "l' = l"
    unfolding unambiguous_def by blast
  with Some show ?thesis by simp
qed

lemma ex_store_unambiguous: "unambiguous (urls ex_store)"
  by (simp add: unambiguous_def ex_store_def ex_link_def ex_other_def keys_of_def)

text \<open>The lookup endpoint asks the same query and answers from its result alone.\<close>

lemma lookup_handler_resolves:
  "queries (lookup_handler f st code) = [code]
   \<and> (\<not> findOne_rejects f \<longrightarrow>
        responses (lookup_handler f st code) =
          [case Url_findOne_or (urls st) code of
             None \<Rightarrow> Json 404 False (Message ''Short link not found'')
           | Some u \<Rightarrow> Json 200 True (LinkData (oid u) (originalUrl u))])"
  by (simp add: lookup_handler_def split: option.splits)

text \<open>
  What holds of the query on every store: a link it returns is stored and has the segment
  as short code or alias, and it returns none exactly when no stored link has.  Where no
  key belongs to two stored links, a stored link is returned if and only if the segment
  is its short code or alias.
\<close>

lemma resolver_first_match:
  "(Url_findOne_or us code = Some l \<longrightarrow>
      l \<in> set us \<and> (shortUrl l = code \<or> customUrl l = Some code))
   \<and> (Url_findOne_or us code = None \<longleftrightarrow>
        (\<forall>k \<in> set us. shortUrl k \<noteq> code \<and> customUrl k \<noteq> Some code))
   \<and> (unambiguous us \<and> l \<in> set us \<longrightarrow>
        (Url_findOne_or us code = Some l \<longleftrightarrow> shortUrl l = code \<or> customUrl l = Some code))"
proof (intro conjI impI)
  assume "Url_findOne_or us code = Some l"
  then show "l \<in> set us" and "shortUrl l = code \<or> customUrl l = Some code"
    using findOne_or_Some by blast+
next
  show "(Url_findOne_or us code = None) =
    (\<forall>k \<in> set us. shortUrl k \<noteq> code \<and> customUrl k \<noteq> Some code)"
    by (rule findOne_or_None)
next
  assume "unambiguous us \<and> l \<in> set us"
  then show "(Url_findOne_or us code = Some l) = (shortUrl l = code \<or> customUrl l = Some code)"
    using findOne_or_unique [of us l code] findOne_or_Some [of us code l] by blast
qed

text \<open>
  C6.  The claim: the resolver finds a link if and only if the segment is that link's
  generated short code or its custom alias.  The code, on a store the creation endpoint
  builds: the endpoint compares an alias with the stored aliases and short codes, but a
  generated short code only with the stored short codes, so it stores a link whose short
  code "mysite" is the alias of an older link; the query for "mysite" then returns the
  older link, and the new link is not found by its own short code.
\<close>

theorem lookup_misses_shadowed_link:
  "create_handler no_faults nothing_meanwhile ex_store 9
     \<lparr>body_title = Some ''Other'', body_longUrl = Some ''https://example.net/other'',
      body_customUrl = None\<rparr> ''mysite'' 14 None
   = (Json 201 True (Links [ex_shadowed]), \<lparr>urls = [ex_other, ex_link, ex_shadowed], clicks = []\<rparr>)
   \<and> shortUrl ex_shadowed = ''mysite''
   \<and> Url_findOne_or [ex_other, ex_link, ex_shadowed] ''mysite'' = Some ex_link
   \<and> Url_findOne_or [ex_other, ex_link, ex_shadowed] ''mysite'' \<noteq> Some ex_shadowed
   \<and> responses (lookup_handler no_faults \<lparr>urls = [ex_other, ex_link, ex_shadowed], clicks = []\<rparr>
        ''mysite'') = [Json 200 True (LinkData 11 ''https://example.com/page'')]"
proof -
  have c: "create_handler no_faults nothing_meanwhile ex_store 9
     \<lparr>body_title = Some ''Other'', body_longUrl = Some ''https://example.net/other'',
      body_customUrl = None\<rparr> ''mysite'' 14 None
   = (Json 201 True (Links [ex_shadowed]), \<lparr>urls = [ex_other, ex_link, ex_shadowed], clicks = []\<rparr>)"
    by (simp add: create_handler_def Let_def no_faults_def ex_shadowed_def ex_store_def
        ex_link_def ex_other_def trim_def is_space_def nothing_meanwhile_def)
  have s: "shortUrl ex_shadowed = ''mysite''"
    by (simp add: ex_shadowed_def)
  have f: "Url_findOne_or [ex_other, ex_link, ex_shadowed] ''mysite'' = Some ex_link"
    by (simp add: Url_findOne_or_def matches_code_def ex_other_def ex_link_def)
  have n: "ex_link \<noteq> ex_shadowed"
    by (simp add: ex_link_def ex_shadowed_def)
  have l: "responses (lookup_handler no_faults \<lparr>urls = [ex_other, ex_link, ex_shadowed], clicks = []\<rparr>
        ''mysite'') = [Json 200 True (LinkData 11 ''https://example.com/page'')]"
    using f by (simp add: lookup_handler_def no_faults_def ex_link_def)
  from c s f n l show ?thesis by simp
qed

text \<open>
  The same ambiguity without any coincidence: the alias has no unique index, so two
  requests that post the same alias at about the same time both pass the check and both
  store their link; the second link is never found by its alias.
\<close>

lemma alias_stored_twice:
  "map customUrl (urls (snd (create_handler no_faults ex_same_alias_posted_meanwhile
       \<lparr>urls = [], clicks = []\<rparr> 7 ex_promo_body ''z1x2c3'' 22 None)))
   = [Some ''promo'', Some ''promo'']
   \<and> map oid (urls (snd (create_handler no_faults ex_same_alias_posted_meanwhile
       \<lparr>urls = [], clicks = []\<rparr> 7 ex_promo_body ''z1x2c3'' 22 None))) = [21, 22]"
  by (simp add: create_handler_def Let_def no_faults_def ex_same_alias_posted_meanwhile_def
      ex_promo_body_def nothing_meanwhile_def trim_def is_space_def)

section \<open>The redirect handler\<close>

lemma responses_append: "responses (xs @ ys) = responses xs @ responses ys"
  by (induction xs rule: responses.induct) simp_all

lemma inserts_append: "inserts (xs @ ys) = inserts xs @ inserts ys"
  by (induction xs rule: inserts.induct) simp_all

lemma queries_append: "queries (xs @ ys) = queries xs @ queries ys"
  by (induction xs rule: queries.induct) simp_all

lemma fetches_append: "fetches (xs @ ys) = fetches xs @ fetches ys"
  by (induction xs rule: fetches.induct) simp_all

lemma answers_append: "answers (xs @ ys) = answers xs @ answers ys"
  by (induction xs rule: answers.induct) simp_all

lemmas projections = responses_append inserts_append queries_append fetches_append answers_append

lemma call_events:
  "fst (getGeolocation_call addr) = (if is_local_ip addr then [] else [Fetch (lookup_url addr)])"
  "snd (getGeolocation_call addr) = (if is_local_ip addr then Some geo_local else None)"
  by (simp_all add: getGeolocation_call_def)

lemma settle_events:
  "getGeolocation_settle reply =
     (Answer reply # (case getGeolocation_try reply of
                        Inl error \<Rightarrow> [Log ''Geolocation error:''] | Inr g \<Rightarrow> []),
      case getGeolocation_try reply of Inl error \<Rightarrow> Inr geo_unknown | Inr g \<Rightarrow> Inr g)"
  by (simp add: getGeolocation_settle_def split: sum.splits)

lemma redirect_handler_api:
  "shortCode req = ''api'' \<Longrightarrow>
   redirect_handler encodeUrl f reply st req =
     ([Respond (Json 404 False (Message ''Not found''))], st)"
  by (simp add: redirect_handler_def redirect_request_def)

lemma redirect_handler_fault:
  "shortCode req \<noteq> ''api'' \<Longrightarrow> findOne_rejects f \<Longrightarrow>
   redirect_handler encodeUrl f reply st req =
     ([Query (shortCode req), Log ''Redirect error:'', Respond (Send 500 ''Error processing redirect'')], st)"
  by (simp add: redirect_handler_def redirect_request_def)

lemma redirect_handler_miss:
  "shortCode req \<noteq> ''api'' \<Longrightarrow> \<not> findOne_rejects f \<Longrightarrow>
   Url_findOne_or (urls st) (shortCode req) = None \<Longrightarrow>
   redirect_handler encodeUrl f reply st req =
     ([Query (shortCode req), Respond (Send 404 link_not_found_page)], st)"
  by (simp add: redirect_handler_def redirect_request_def)

lemma redirect_request_hit:
  "shortCode req \<noteq> ''api'' \<Longrightarrow> \<not> findOne_rejects f \<Longrightarrow>
   Url_findOne_or (urls st) (shortCode req) = Some u \<Longrightarrow>
   redirect_request encodeUrl f st req =
     (Query (shortCode req) # fst (getGeolocation_call (getClientIP req))
        @ [Respond (Redirect 302 (res_location encodeUrl req (originalUrl u)))],
      Some \<lparr>resolved = snd (getGeolocation_call (getClientIP req)),
            document = click_document u req\<rparr>)"
  by (simp add: redirect_request_def split: prod.splits)

lemma record_click_run:
  assumes "r = \<lparr>resolved = snd (getGeolocation_call addr), document = doc\<rparr>"
    and "snd (getGeolocation addr reply) = Inr g"
  shows "record_click f reply r st =
     ((if is_local_ip addr then []
       else Answer reply # (case getGeolocation_try reply of
                              Inl error \<Rightarrow> [Log ''Geolocation error:''] | Inr g \<Rightarrow> []))
        @ (if create_rejects f then [Log ''Error saving click:''] else [Insert (doc g)]),
      if create_rejects f then st else st\<lparr>clicks := clicks st @ [doc g]\<rparr>)"
proof (cases "is_local_ip addr")
  case True
  with assms show ?thesis
    by (simp add: record_click_def call_events getGeolocation_def getGeolocation_call_def)
next
  case False
  with assms(2) have "(case getGeolocation_try reply of
      Inl error \<Rightarrow> Inr geo_unknown | Inr g \<Rightarrow> Inr g) = (Inr g :: exn + geo)"
    by (simp add: getGeolocation_def getGeolocation_call_def settle_events)
  with False assms(1) show ?thesis
    by (simp add: record_click_def call_events settle_events)
qed

lemma redirect_handler_hit:
  assumes "shortCode req \<noteq> ''api''" and "\<not> findOne_rejects f"
    and "Url_findOne_or (urls st) (shortCode req) = Some u"
    and "snd (getGeolocation (getClientIP req) reply) = Inr g"
  shows "redirect_handler encodeUrl f reply st req =
     (Query (shortCode req) # fst (getGeolocation_call (getClientIP req))
        @ [Respond (Redirect 302 (res_location encodeUrl req (originalUrl u)))]
        @ (if is_local_ip (getClientIP req) then []
           else Answer reply # (case getGeolocation_try reply of
                                  Inl error \<Rightarrow> [Log ''Geolocation error:''] | Inr g \<Rightarrow> []))
        @ (if create_rejects f then [Log ''Error saving click:'']
           else [Insert (click_document u req g)]),
      if create_rejects f then st
      else st\<lparr>clicks := clicks st @ [click_document u req g]\<rparr>)"
  using record_click_run [where doc = "click_document u req" and f = f and st = st,
      OF refl assms(4)]
  by (simp add: redirect_handler_def redirect_request_hit [OF assms(1,2,3)])

lemma redirect_handler_hit_projections:
  assumes "shortCode req \<noteq> ''api''" and "\<not> findOne_rejects f"
    and "Url_findOne_or (urls st) (shortCode req) = Some u"
  shows "responses (fst (redirect_handler encodeUrl f reply st req))
           = [Redirect 302 (res_location encodeUrl req (originalUrl u))]"
    and "queries (fst (redirect_handler encodeUrl f reply st req)) = [shortCode req]"
    and "fetches (fst (redirect_handler encodeUrl f reply st req))
           = (if is_local_ip (getClientIP req) then [] else [lookup_url (getClientIP req)])"
proof -
  obtain g where g: "snd (getGeolocation (getClientIP req) reply) = Inr g"
    using getGeolocation_resolves by blast
  note h = redirect_handler_hit [OF assms g]
  show "responses (fst (redirect_handler encodeUrl f reply st req))
           = [Redirect 302 (res_location encodeUrl req (originalUrl u))]"
    by (simp add: h call_events projections split: sum.splits)
  show "queries (fst (redirect_handler encodeUrl f reply st req)) = [shortCode req]"
    by (simp add: h call_events projections split: sum.splits)
  show "fetches (fst (redirect_handler encodeUrl f reply st req))
           = (if is_local_ip (getClientIP req) then [] else [lookup_url (getClientIP req)])"
    by (simp add: h call_events projections split: sum.splits)
qed

lemma ex_request_client: "getClientIP (ex_request code) = ''203.0.113.9''"
  by (simp add: getClientIP_def ex_request_def split_comma_first_def trim_def is_space_def)

lemma ex_client_not_local: "\<not> is_local_ip ''203.0.113.9''"
  by (simp add: is_local_ip_def)


lemma ex_lookup_miss: "Url_findOne_or (urls ex_store) (shortCode (ex_request ''nosuch'')) = None"
  by (simp add: Url_findOne_or_def matches_code_def ex_store_def ex_link_def ex_other_def
      ex_request_def)

lemma redirect_handler_fetches:
  "fetches (fst (redirect_handler encodeUrl f reply st req)) = [] \<or>
   fetches (fst (redirect_handler encodeUrl f reply st req))
     = fetches (fst (getGeolocation (getClientIP req) reply))"
proof (cases "shortCode req = ''api''")
  case True
  then show ?thesis by (simp add: redirect_handler_api)
next
  case False
  show ?thesis
  proof (cases "findOne_rejects f")
    case True
    with False show ?thesis by (simp add: redirect_handler_fault)
  next
    case nf: False
    show ?thesis
    proof (cases "Url_findOne_or (urls st) (shortCode req)")
      case None
      with False nf show ?thesis by (simp add: redirect_handler_miss)
    next
      case (Some u)
      with False nf show ?thesis
        by (simp add: redirect_handler_hit_projections getGeolocation_fetches)
    qed
  qed
qed

text \<open>
  C5.  For every address the resolver recognises as loopback or private (the literals
  127.0.0.1, ::1 and localhost, and the prefixes 192.168. and 10.) it returns
  Local/Local/Local and sends no request, whatever the provider would have answered; a
  redirect request from such an address sends no geolocation request at all.
\<close>

theorem local_short_circuit:
  "addr = ''127.0.0.1'' \<or> addr = ''::1'' \<or> addr = ''localhost''
     \<or> startsWith addr ''192.168.'' \<or> startsWith addr ''10.''
   \<Longrightarrow> getGeolocation addr reply = ([], Inr geo_local)
     \<and> (getClientIP req = addr \<longrightarrow>
          fetches (fst (redirect_handler encodeUrl f reply st req)) = [])"
proof -
  assume "addr = ''127.0.0.1'' \<or> addr = ''::1'' \<or> addr = ''localhost''
     \<or> startsWith addr ''192.168.'' \<or> startsWith addr ''10.''"
  then have l: "is_local_ip addr"
    by (simp add: is_local_ip_def)
  then have a: "getGeolocation addr reply = ([], Inr geo_local)"
    by (simp add: getGeolocation_def getGeolocation_call_def)
  from l have "fetches (fst (getGeolocation addr reply)) = []"
    by (simp add: getGeolocation_fetches)
  with a show ?thesis
    using redirect_handler_fetches [of encodeUrl f reply st req] by auto
qed

theorem local_short_circuit_witness:
  "getGeolocation ''127.0.0.1'' FetchRejects = ([], Inr geo_local)
   \<and> getGeolocation ''192.168.1.20'' JsonNull = ([], Inr geo_local)
   \<and> getClientIP (ex_request ''abc123''\<lparr>x_forwarded_for := None\<rparr>) = ''10.0.0.1''
   \<and> fetches (fst (redirect_handler ex_encode no_faults JsonNull ex_store
         (ex_request ''abc123''\<lparr>x_forwarded_for := None\<rparr>))) = []"
proof -
  have c: "getClientIP (ex_request ''abc123''\<lparr>x_forwarded_for := None\<rparr>) = ''10.0.0.1''"
    by (simp add: getClientIP_def ex_request_def)
  have p: "startsWith ''10.0.0.1'' ''10.''" by simp
  have "fetches (fst (redirect_handler ex_encode no_faults JsonNull ex_store
         (ex_request ''abc123''\<lparr>x_forwarded_for := None\<rparr>))) = []"
    using local_short_circuit [of "''10.0.0.1''" JsonNull
        "ex_request ''abc123''\<lparr>x_forwarded_for := None\<rparr>" ex_encode no_faults ex_store] p c
    by simp
  with c show ?thesis
    using local_short_circuit [of "''127.0.0.1''" FetchRejects]
      local_short_circuit [of "''192.168.1.20''" JsonNull]
    by simp
qed

text \<open>
  C9.  The handler answers without a query only for the segment that is exactly "api"
  (404, store untouched).  For every other segment, "apidocs" and any other string that
  only begins with "api" included, it queries the link collection for that segment, and
  when the query completes the response is the redirect for the link found or the
  not-found page.
\<close>

theorem reserved_segment_exact:
  "(queries (fst (redirect_handler encodeUrl f reply st req)) = [] \<longleftrightarrow> shortCode req = ''api'')
   \<and> (shortCode req = ''api'' \<longrightarrow>
        redirect_handler encodeUrl f reply st req =
          ([Respond (Json 404 False (Message ''Not found''))], st))
   \<and> (shortCode req \<noteq> ''api'' \<longrightarrow>
        queries (fst (redirect_handler encodeUrl f reply st req)) = [shortCode req]
        \<and> (\<not> findOne_rejects f \<longrightarrow>
             responses (fst (redirect_handler encodeUrl f reply st req)) =
               [case Url_findOne_or (urls st) (shortCode req) of
                  None \<Rightarrow> Send 404 link_not_found_page
                | Some u \<Rightarrow> Redirect 302 (res_location encodeUrl req (originalUrl u))]))"
proof -
  have q: "queries (fst (redirect_handler encodeUrl f reply st req)) = [shortCode req]"
    if "shortCode req \<noteq> ''api''"
  proof (cases "findOne_rejects f")
    case True
    with that show ?thesis by (simp add: redirect_handler_fault)
  next
    case False
    show ?thesis
    proof (cases "Url_findOne_or (urls st) (shortCode req)")
      case None
      with that False show ?thesis by (simp add: redirect_handler_miss)
    next
      case (Some u)
      with that False show ?thesis by (simp add: redirect_handler_hit_projections)
    qed
  qed
  have r: "responses (fst (redirect_handler encodeUrl f reply st req)) =
               [case Url_findOne_or (urls st) (shortCode req) of
                  None \<Rightarrow> Send 404 link_not_found_page
                | Some u \<Rightarrow> Redirect 302 (res_location encodeUrl req (originalUrl u))]"
    if "shortCode req \<noteq> ''api''" and "\<not> findOne_rejects f"
  proof (cases "Url_findOne_or (urls st) (shortCode req)")
    case None
    with that show ?thesis by (simp add: redirect_handler_miss)
  next
    case (Some u)
    with that show ?thesis by (simp add: redirect_handler_hit_projections)
  qed
  have a: "shortCode req = ''api'' \<Longrightarrow> queries (fst (redirect_handler encodeUrl f reply st req)) = []"
    by (simp add: redirect_handler_api)
  show ?thesis
  proof (intro conjI impI)
    show "(queries (fst (redirect_handler encodeUrl f reply st req)) = []) = (shortCode req = ''api'')"
      using a q by (cases "shortCode req = ''api''") simp_all
  qed (simp_all add: redirect_handler_api q r)
qed

theorem reserved_segment_exact_witness:
  "shortCode (ex_request ''apidocs'') \<noteq> ''api''
   \<and> queries (fst (redirect_handler ex_encode no_faults FetchRejects ex_store (ex_request ''apidocs''))) = [''apidocs'']
   \<and> responses (fst (redirect_handler ex_encode no_faults FetchRejects ex_store (ex_request ''apidocs'')))
       = [Send 404 link_not_found_page]
   \<and> redirect_handler ex_encode no_faults FetchRejects ex_store (ex_request ''api'')
       = ([Respond (Json 404 False (Message ''Not found''))], ex_store)"
proof -
  note t = reserved_segment_exact [of ex_encode no_faults FetchRejects ex_store "ex_request ''apidocs''"]
  note t' = reserved_segment_exact [of ex_encode no_faults FetchRejects ex_store "ex_request ''api''"]
  have n: "shortCode (ex_request ''apidocs'') \<noteq> ''api''"
    by (simp add: ex_request_def)
  have nf: "\<not> findOne_rejects no_faults"
    by (simp add: no_faults_def)
  have miss: "Url_findOne_or (urls ex_store) (shortCode (ex_request ''apidocs'')) = None"
    by (simp add: Url_findOne_or_def matches_code_def ex_store_def ex_link_def ex_other_def
        ex_request_def)
  from t n have q: "queries (fst (redirect_handler ex_encode no_faults FetchRejects ex_store (ex_request ''apidocs''))) = [''apidocs'']"
    by (simp add: ex_request_def)
  from t n nf miss have r: "responses (fst (redirect_handler ex_encode no_faults FetchRejects ex_store (ex_request ''apidocs'')))
       = [Send 404 link_not_found_page]"
    by simp
  have "shortCode (ex_request ''api'') = ''api''"
    by (simp add: ex_request_def)
  with t' have a: "redirect_handler ex_encode no_faults FetchRejects ex_store (ex_request ''api'')
       = ([Respond (Json 404 False (Message ''Not found''))], ex_store)"
    by simp
  from n q r a show ?thesis by simp
qed

text \<open>
  C1 (as amended).  In a store where no key belongs to two links, for every stored link
  and every request whose segment is the link's short code or custom alias and is not
  the reserved segment "api", the handler responds, when the query completes, with
  exactly one response: the 302 redirect whose \<^verbatim>\<open>Location\<close> is what the framework makes
  of the link's \<open>originalUrl\<close>: the request's \<^verbatim>\<open>Referrer\<close> header, or \<^verbatim>\<open>/\<close>, for the stored
  string \<^verbatim>\<open>back\<close>, and \<open>originalUrl\<close> itself otherwise, in either case through the
  framework's URL encoding.  It is \<open>originalUrl\<close> unchanged whenever that is not
  \<^verbatim>\<open>back\<close> and the encoding leaves it alone.
\<close>

theorem redirect_known_code:
  assumes "l \<in> set (urls st)"
    and "shortUrl l = shortCode req \<or> customUrl l = Some (shortCode req)"
    and "unambiguous (urls st)"
    and "shortCode req \<noteq> ''api''"
    and "\<not> findOne_rejects f"
  shows "responses (fst (redirect_handler encodeUrl f reply st req)) =
           [Redirect 302 (encodeUrl (if originalUrl l = ''back''
              then js_or (referrer_header req) (js_or (referer_header req) ''/'')
              else originalUrl l))]
    \<and> (originalUrl l \<noteq> ''back'' \<and> encodeUrl (originalUrl l) = originalUrl l \<longrightarrow>
         responses (fst (redirect_handler encodeUrl f reply st req)) =
           [Redirect 302 (originalUrl l)])"
proof -
  have "Url_findOne_or (urls st) (shortCode req) = Some l"
    using assms(1,2,3) by (simp add: findOne_or_unique)
  then have "responses (fst (redirect_handler encodeUrl f reply st req)) =
      [Redirect 302 (res_location encodeUrl req (originalUrl l))]"
    using assms(4,5) by (simp add: redirect_handler_hit_projections)
  then show ?thesis
    by (simp add: res_location_def)
qed

theorem redirect_known_code_witness:
  "ex_link \<in> set (urls ex_store) \<and> customUrl ex_link = Some (shortCode (ex_request ''mysite''))
   \<and> unambiguous (urls ex_store) \<and> shortCode (ex_request ''mysite'') \<noteq> ''api''
   \<and> \<not> findOne_rejects no_faults
   \<and> originalUrl ex_link = ''https://example.com/page''
   \<and> ex_encode (originalUrl ex_link) = originalUrl ex_link
   \<and> responses (fst (redirect_handler ex_encode no_faults FetchRejects ex_store
        (ex_request ''mysite''))) = [Redirect 302 ''https://example.com/page'']"
proof -
  have m: "ex_link \<in> set (urls ex_store)"
    by (simp add: ex_store_def)
  have c: "customUrl ex_link = Some (shortCode (ex_request ''mysite''))"
    by (simp add: ex_link_def ex_request_def)
  have c': "shortUrl ex_link = shortCode (ex_request ''mysite'')
      \<or> customUrl ex_link = Some (shortCode (ex_request ''mysite''))"
    using c by simp
  have n: "shortCode (ex_request ''mysite'') \<noteq> ''api''"
    by (simp add: ex_request_def)
  have nf: "\<not> findOne_rejects no_faults"
    by (simp add: no_faults_def)
  have o: "originalUrl ex_link = ''https://example.com/page''"
    by (simp add: ex_link_def)
  have e: "ex_encode (originalUrl ex_link) = originalUrl ex_link"
    by (simp add: ex_encode_def)
  have b: "originalUrl ex_link \<noteq> ''back''"
    by (simp add: ex_link_def)
  note t = redirect_known_code [OF m c' ex_store_unambiguous n nf,
      of ex_encode FetchRejects, THEN conjunct2, THEN mp, OF conjI [OF b e]]
  have r: "responses (fst (redirect_handler ex_encode no_faults FetchRejects ex_store
        (ex_request ''mysite''))) = [Redirect 302 ''https://example.com/page'']"
    using t unfolding o .
  show ?thesis
    by (intro conjI m c ex_store_unambiguous n nf o e r)
qed

text \<open>
  The claim as written covers every stored link and every segment equal to its short code
  or alias, and names \<open>originalUrl\<close> as the target.  A link stored under the alias "api"
  is not redirected to: the reserved-path check answers 404 first.  A link requested
  while the query rejects gets the 500 page.  A link whose stored destination is the
  string \<^verbatim>\<open>back\<close> is redirected to \<^verbatim>\<open>/\<close> when the request names no referrer.  A link
  whose stored destination has a space is redirected to the encoded destination, under
  an encoding that writes a space as \<^verbatim>\<open>%20\<close>.
\<close>

theorem reserved_alias_not_redirected:
  "ex_api_link \<in> set (urls \<lparr>urls = [ex_api_link], clicks = []\<rparr>)
   \<and> customUrl ex_api_link = Some (shortCode (ex_request ''api''))
   \<and> responses (fst (redirect_handler ex_encode no_faults FetchRejects
         \<lparr>urls = [ex_api_link], clicks = []\<rparr> (ex_request ''api'')))
       = [Json 404 False (Message ''Not found'')]
   \<and> ex_link \<in> set (urls ex_store)
   \<and> shortUrl ex_link = shortCode (ex_request ''abc123'')
   \<and> responses (fst (redirect_handler ex_encode (no_faults\<lparr>findOne_rejects := True\<rparr>) FetchRejects
         ex_store (ex_request ''abc123'')))
       = [Send 500 ''Error processing redirect'']
   \<and> ex_back_link \<in> set (urls \<lparr>urls = [ex_back_link], clicks = []\<rparr>)
   \<and> shortUrl ex_back_link = shortCode (ex_request ''b4ck00'')
   \<and> originalUrl ex_back_link = ''back''
   \<and> responses (fst (redirect_handler ex_encode no_faults FetchRejects
         \<lparr>urls = [ex_back_link], clicks = []\<rparr> (ex_request ''b4ck00'')))
       = [Redirect 302 ''/'']
   \<and> ex_spaced_link \<in> set (urls \<lparr>urls = [ex_spaced_link], clicks = []\<rparr>)
   \<and> shortUrl ex_spaced_link = shortCode (ex_request ''sp4c3d'')
   \<and> originalUrl ex_spaced_link = ''https://example.com/a b''
   \<and> responses (fst (redirect_handler ex_encode_space no_faults FetchRejects
         \<lparr>urls = [ex_spaced_link], clicks = []\<rparr> (ex_request ''sp4c3d'')))
       = [Redirect 302 ''https://example.com/a%20b'']"
proof -
  have h': "Url_findOne_or (urls \<lparr>urls = [ex_spaced_link], clicks = []\<rparr>)
      (shortCode (ex_request ''sp4c3d'')) = Some ex_spaced_link"
    by (simp add: Url_findOne_or_def matches_code_def ex_spaced_link_def ex_request_def)
  have n': "shortCode (ex_request ''sp4c3d'') \<noteq> ''api''"
    by (simp add: ex_request_def)
  have "res_location ex_encode_space (ex_request ''sp4c3d'') (originalUrl ex_spaced_link)
      = ''https://example.com/a%20b''"
    by (simp add: res_location_def ex_encode_space_def ex_spaced_link_def)
  then have s: "responses (fst (redirect_handler ex_encode_space no_faults FetchRejects
         \<lparr>urls = [ex_spaced_link], clicks = []\<rparr> (ex_request ''sp4c3d'')))
       = [Redirect 302 ''https://example.com/a%20b'']"
    by (simp add: redirect_handler_hit_projections [OF n' _ h'] no_faults_def)
  have s': "ex_spaced_link \<in> set (urls \<lparr>urls = [ex_spaced_link], clicks = []\<rparr>)
   \<and> shortUrl ex_spaced_link = shortCode (ex_request ''sp4c3d'')
   \<and> originalUrl ex_spaced_link = ''https://example.com/a b''"
    by (simp add: ex_spaced_link_def ex_request_def)
  have h: "Url_findOne_or (urls \<lparr>urls = [ex_back_link], clicks = []\<rparr>)
      (shortCode (ex_request ''b4ck00'')) = Some ex_back_link"
    by (simp add: Url_findOne_or_def matches_code_def ex_back_link_def ex_request_def)
  have n: "shortCode (ex_request ''b4ck00'') \<noteq> ''api''"
    by (simp add: ex_request_def)
  have nf: "\<not> findOne_rejects no_faults"
    by (simp add: no_faults_def)
  have "res_location ex_encode (ex_request ''b4ck00'') (originalUrl ex_back_link) = ''/''"
    by (simp add: res_location_def ex_encode_def ex_back_link_def ex_request_def)
  then have b: "responses (fst (redirect_handler ex_encode no_faults FetchRejects
         \<lparr>urls = [ex_back_link], clicks = []\<rparr> (ex_request ''b4ck00'')))
       = [Redirect 302 ''/'']"
    by (simp add: redirect_handler_hit_projections [OF n nf h])
  have "ex_api_link \<in> set (urls \<lparr>urls = [ex_api_link], clicks = []\<rparr>)
   \<and> customUrl ex_api_link = Some (shortCode (ex_request ''api''))
   \<and> responses (fst (redirect_handler ex_encode no_faults FetchRejects
         \<lparr>urls = [ex_api_link], clicks = []\<rparr> (ex_request ''api'')))
       = [Json 404 False (Message ''Not found'')]
   \<and> ex_link \<in> set (urls ex_store)
   \<and> shortUrl ex_link = shortCode (ex_request ''abc123'')
   \<and> responses (fst (redirect_handler ex_encode (no_faults\<lparr>findOne_rejects := True\<rparr>) FetchRejects
         ex_store (ex_request ''abc123'')))
       = [Send 500 ''Error processing redirect'']"
    by (simp add: redirect_handler_api redirect_handler_fault ex_request_def ex_api_link_def
        ex_store_def ex_link_def no_faults_def)
  moreover have "ex_back_link \<in> set (urls \<lparr>urls = [ex_back_link], clicks = []\<rparr>)
   \<and> shortUrl ex_back_link = shortCode (ex_request ''b4ck00'')
   \<and> originalUrl ex_back_link = ''back''"
    by (simp add: ex_back_link_def ex_request_def)
  ultimately show ?thesis
    using b s s' by simp
qed

text \<open>
  These stores are what the creation endpoint builds: it accepts the alias "api" and
  stores the destination as it is posted.
\<close>

lemma api_alias_is_accepted:
  "create_handler no_faults nothing_meanwhile \<lparr>urls = [], clicks = []\<rparr> 7
     \<lparr>body_title = Some ''API docs'', body_longUrl = Some ''https://example.com/api-docs'',
      body_customUrl = Some ''api''\<rparr> ''p0q1r2'' 13 None
   = (Json 201 True (Links [ex_api_link]), \<lparr>urls = [ex_api_link], clicks = []\<rparr>)"
  by (simp add: create_handler_def Let_def no_faults_def ex_api_link_def trim_def is_space_def
      nothing_meanwhile_def)

lemma back_destination_is_accepted:
  "create_handler no_faults nothing_meanwhile \<lparr>urls = [], clicks = []\<rparr> 7
     \<lparr>body_title = Some ''Back'', body_longUrl = Some ''back'', body_customUrl = None\<rparr>
     ''b4ck00'' 15 None
   = (Json 201 True (Links [ex_back_link]), \<lparr>urls = [ex_back_link], clicks = []\<rparr>)"
  by (simp add: create_handler_def Let_def no_faults_def ex_back_link_def trim_def is_space_def
      nothing_meanwhile_def)

lemma spaced_destination_is_accepted:
  "create_handler no_faults nothing_meanwhile \<lparr>urls = [], clicks = []\<rparr> 7
     \<lparr>body_title = Some ''Spaced'', body_longUrl = Some ''https://example.com/a b'',
      body_customUrl = None\<rparr>
     ''sp4c3d'' 16 None
   = (Json 201 True (Links [ex_spaced_link]), \<lparr>urls = [ex_spaced_link], clicks = []\<rparr>)"
  by (simp add: create_handler_def Let_def no_faults_def ex_spaced_link_def trim_def is_space_def
      nothing_meanwhile_def)

text \<open>
  Why the store must be unambiguous: the query returns the first match, so the later link
  is never reached by its own short code.
\<close>

lemma shadowed_code_example:
  "ex_shadowed \<in> set (urls \<lparr>urls = [ex_other, ex_link, ex_shadowed], clicks = []\<rparr>)
   \<and> shortUrl ex_shadowed = shortCode (ex_request ''mysite'')
   \<and> responses (fst (redirect_handler encodeUrl no_faults FetchRejects
         \<lparr>urls = [ex_other, ex_link, ex_shadowed], clicks = []\<rparr> (ex_request ''mysite'')))
       = [Redirect 302 (encodeUrl (originalUrl ex_link))]
   \<and> originalUrl ex_link \<noteq> originalUrl ex_shadowed"
proof -
  have f: "Url_findOne_or (urls \<lparr>urls = [ex_other, ex_link, ex_shadowed], clicks = []\<rparr>)
             (shortCode (ex_request ''mysite'')) = Some ex_link"
    by (simp add: Url_findOne_or_def matches_code_def ex_other_def ex_link_def ex_request_def)
  have n: "shortCode (ex_request ''mysite'') \<noteq> ''api''"
    by (simp add: ex_request_def)
  have nf: "\<not> findOne_rejects no_faults"
    by (simp add: no_faults_def)
  have b: "originalUrl ex_link \<noteq> ''back''"
    by (simp add: ex_link_def)
  have "responses (fst (redirect_handler encodeUrl no_faults FetchRejects
         \<lparr>urls = [ex_other, ex_link, ex_shadowed], clicks = []\<rparr> (ex_request ''mysite'')))
       = [Redirect 302 (encodeUrl (originalUrl ex_link))]"
    using b by (simp add: redirect_handler_hit_projections [OF n nf f] res_location_def)
  moreover have "shortUrl ex_shadowed = shortCode (ex_request ''mysite'')"
    by (simp add: ex_shadowed_def ex_request_def)
  moreover have "originalUrl ex_link \<noteq> originalUrl ex_shadowed"
    by (simp add: ex_shadowed_def ex_link_def)
  ultimately show ?thesis by simp
qed

text \<open>
  C2 (as amended).  For every segment that is no stored link's short code and no stored
  custom alias, the handler leaves the store unchanged, inserts no click and sends no
  geolocation request, and it gives exactly one response: 404, or 500 when the query of
  the link collection rejects.
\<close>

theorem redirect_unknown_code:
  assumes "\<forall>l \<in> set (urls st). shortUrl l \<noteq> shortCode req \<and> customUrl l \<noteq> Some (shortCode req)"
  shows "snd (redirect_handler encodeUrl f reply st req) = st
    \<and> inserts (fst (redirect_handler encodeUrl f reply st req)) = []
    \<and> fetches (fst (redirect_handler encodeUrl f reply st req)) = []
    \<and> (\<exists>r. responses (fst (redirect_handler encodeUrl f reply st req)) = [r]
          \<and> status_code r = (if findOne_rejects f \<and> shortCode req \<noteq> ''api'' then 500 else 404))"
proof (cases "shortCode req = ''api''")
  case True
  then show ?thesis by (simp add: redirect_handler_api)
next
  case False
  show ?thesis
  proof (cases "findOne_rejects f")
    case True
    with False show ?thesis by (simp add: redirect_handler_fault)
  next
    case nf: False
    from assms have "Url_findOne_or (urls st) (shortCode req) = None"
      by (simp add: findOne_or_None)
    with False nf show ?thesis by (simp add: redirect_handler_miss)
  qed
qed

theorem redirect_unknown_code_witness:
  "Url_findOne_or (urls ex_store) (shortCode (ex_request ''nosuch'')) = None
   \<and> snd (redirect_handler ex_encode no_faults FetchRejects ex_store (ex_request ''nosuch'')) = ex_store
   \<and> inserts (fst (redirect_handler ex_encode no_faults FetchRejects ex_store (ex_request ''nosuch''))) = []
   \<and> map status_code
        (responses (fst (redirect_handler ex_encode no_faults FetchRejects ex_store (ex_request ''nosuch''))))
      = [404]"
proof -
  have u: "\<forall>l \<in> set (urls ex_store). shortUrl l \<noteq> shortCode (ex_request ''nosuch'')
        \<and> customUrl l \<noteq> Some (shortCode (ex_request ''nosuch''))"
    using ex_lookup_miss unfolding findOne_or_None .
  have nf: "\<not> findOne_rejects no_faults"
    by (simp add: no_faults_def)
  note t = redirect_unknown_code [OF u, of ex_encode no_faults FetchRejects]
  from t nf obtain r where
    "responses (fst (redirect_handler ex_encode no_faults FetchRejects ex_store (ex_request ''nosuch''))) = [r]"
    and "status_code r = 404"
    by auto
  then have "map status_code
        (responses (fst (redirect_handler ex_encode no_faults FetchRejects ex_store (ex_request ''nosuch''))))
      = [404]"
    by simp
  with t ex_lookup_miss show ?thesis by simp
qed

text \<open>
  The claim as written promises 404 for every such segment.  When the query rejects, the
  handler's \<^verbatim>\<open>catch\<close> answers 500 for an unknown segment as for any other.
\<close>

theorem unknown_code_store_failure:
  "Url_findOne_or (urls ex_store) (shortCode (ex_request ''nosuch'')) = None
   \<and> responses (fst (redirect_handler ex_encode (no_faults\<lparr>findOne_rejects := True\<rparr>) FetchRejects
         ex_store (ex_request ''nosuch'')))
       = [Send 500 ''Error processing redirect'']"
proof -
  have "shortCode (ex_request ''nosuch'') \<noteq> ''api''"
    by (simp add: ex_request_def)
  moreover have "findOne_rejects (no_faults\<lparr>findOne_rejects := True\<rparr>)"
    by simp
  ultimately show ?thesis
    using ex_lookup_miss by (simp add: redirect_handler_fault)
qed




section \<open>Deleting a link\<close>

lemma delete_first_keeps: "x \<in> set xs \<Longrightarrow> \<not> P x \<Longrightarrow> x \<in> set (delete_first P xs)"
  by (induction xs) auto

lemma delete_first_distinct:
  "distinct (map h xs) \<Longrightarrow> i \<notin> h ` set (delete_first (\<lambda>v. h v = i) xs)"
  by (induction xs) auto

lemma delete_find_link:
  "delete_find f st user ident = Inr u \<Longrightarrow> oid u = ident \<and> userId u = user \<and> u \<in> set (urls st)"
  by (auto simp add: delete_find_def find_Some_iff split: if_splits option.splits)

lemma delete_handler_done:
  assumes "fst (delete_handler f meanwhile meanwhile' st user ident)
             = Json 200 True (Message ''URL deleted successfully'')"
  shows "snd (delete_handler f meanwhile meanwhile' st user ident) =
           (meanwhile' ((meanwhile st)\<lparr>clicks :=
               filter (\<lambda>c. urlId c \<noteq> ident) (clicks (meanwhile st))\<rparr>))
             \<lparr>urls := delete_first (\<lambda>v. oid v = ident)
               (urls (meanwhile' ((meanwhile st)\<lparr>clicks :=
                  filter (\<lambda>c. urlId c \<noteq> ident) (clicks (meanwhile st))\<rparr>)))\<rparr>"
proof (cases "delete_find f st user ident")
  case (Inl r)
  with assms show ?thesis
    by (auto simp add: delete_handler_def delete_find_def delete_failed_def
        split: if_splits option.splits)
next
  case (Inr u)
  then have "oid u = ident"
    using delete_find_link by blast
  with Inr assms show ?thesis
    by (auto simp add: delete_handler_def delete_clicks_def delete_link_def delete_failed_def
        split: if_splits)
qed

lemma no_orphans_filtered:
  "no_orphans st \<Longrightarrow> no_orphans (st\<lparr>clicks := filter (\<lambda>c. urlId c \<noteq> ident) (clicks st)\<rparr>)"
  by (simp add: no_orphans_def)

lemma no_orphans_unlinked:
  assumes "no_orphans st" and "\<forall>c \<in> set (clicks st). urlId c \<noteq> ident"
  shows "no_orphans (st\<lparr>urls := delete_first (\<lambda>v. oid v = ident) (urls st)\<rparr>)"
  unfolding no_orphans_def
proof (clarsimp)
  fix c
  assume c: "c \<in> set (clicks st)"
  with assms(2) have ne: "urlId c \<noteq> ident" by blast
  from c assms(1) obtain u where u: "u \<in> set (urls st)" and "oid u = urlId c"
    unfolding no_orphans_def by auto
  with ne have "\<not> oid u = ident" by simp
  with u have "u \<in> set (delete_first (\<lambda>v. oid v = ident) (urls st))"
    by (rule delete_first_keeps)
  with \<open>oid u = urlId c\<close> show "urlId c \<in> oid ` set (delete_first (\<lambda>v. oid v = ident) (urls st))"
    by force
qed

lemma delete_handler_alone:
  "snd (delete_handler f nothing_meanwhile nothing_meanwhile st user ident) = st
   \<or> snd (delete_handler f nothing_meanwhile nothing_meanwhile st user ident)
        = st\<lparr>clicks := filter (\<lambda>c. urlId c \<noteq> ident) (clicks st)\<rparr>
   \<or> snd (delete_handler f nothing_meanwhile nothing_meanwhile st user ident)
        = (st\<lparr>clicks := filter (\<lambda>c. urlId c \<noteq> ident) (clicks st)\<rparr>)
            \<lparr>urls := delete_first (\<lambda>v. oid v = ident) (urls st)\<rparr>"
proof (cases "delete_find f st user ident")
  case (Inl r)
  then show ?thesis by (simp add: delete_handler_def)
next
  case (Inr u)
  then have "oid u = ident"
    using delete_find_link by blast
  with Inr show ?thesis
    by (simp add: delete_handler_def delete_clicks_def delete_link_def nothing_meanwhile_def)
qed

lemma ex_delete:
  "delete_handler no_faults nothing_meanwhile nothing_meanwhile ex_clicked_store 7 11 =
     (Json 200 True (Message ''URL deleted successfully''), \<lparr>urls = [ex_other], clicks = []\<rparr>)"
  by (simp add: delete_handler_def delete_find_def delete_clicks_def delete_link_def
      nothing_meanwhile_def no_faults_def ex_clicked_store_def ex_link_def ex_other_def
      ex_click_def)

text \<open>
  C8 (as amended).  The delete request of a link's owner first removes every click that
  refers to the link at that moment, every other click staying, and afterwards the link
  itself; between the two, other requests and callbacks act on the store.  When the
  request succeeds, the store is what they left with the link removed.  If at that point
  no click refers to the link (none was inserted since the clicks were removed) and
  every click refers to a stored link, then every click still does afterwards, and with
  distinct object ids the link is no longer stored.  A delete request served with nothing
  in between keeps a store in which every click refers to a stored link such a store,
  whatever its outcome.
\<close>

theorem delete_cascades:
  "(fst (delete_handler f meanwhile meanwhile' st user ident)
       = Json 200 True (Message ''URL deleted successfully'') \<longrightarrow>
      (\<exists>st1 st2.
          st1 = (meanwhile st)\<lparr>clicks := filter (\<lambda>c. urlId c \<noteq> ident) (clicks (meanwhile st))\<rparr>
        \<and> st2 = meanwhile' st1
        \<and> snd (delete_handler f meanwhile meanwhile' st user ident)
            = st2\<lparr>urls := delete_first (\<lambda>v. oid v = ident) (urls st2)\<rparr>
        \<and> (\<forall>c \<in> set (clicks st1). urlId c \<noteq> ident)
        \<and> (no_orphans st2 \<and> (\<forall>c \<in> set (clicks st2). urlId c \<noteq> ident) \<longrightarrow>
             no_orphans (snd (delete_handler f meanwhile meanwhile' st user ident)))
        \<and> (distinct (map oid (urls st2)) \<longrightarrow>
             ident \<notin> oid ` set (urls (snd (delete_handler f meanwhile meanwhile' st user ident))))))
   \<and> (no_orphans st \<longrightarrow>
        no_orphans (snd (delete_handler f nothing_meanwhile nothing_meanwhile st user ident)))"
proof (intro conjI impI)
  assume ok: "fst (delete_handler f meanwhile meanwhile' st user ident)
       = Json 200 True (Message ''URL deleted successfully'')"
  define st1 where
    "st1 = (meanwhile st)\<lparr>clicks := filter (\<lambda>c. urlId c \<noteq> ident) (clicks (meanwhile st))\<rparr>"
  define st2 where "st2 = meanwhile' st1"
  have d: "snd (delete_handler f meanwhile meanwhile' st user ident)
            = st2\<lparr>urls := delete_first (\<lambda>v. oid v = ident) (urls st2)\<rparr>"
    using delete_handler_done [OF ok] by (simp add: st1_def st2_def)
  have c1: "\<forall>c \<in> set (clicks st1). urlId c \<noteq> ident"
    by (simp add: st1_def)
  have o: "no_orphans (snd (delete_handler f meanwhile meanwhile' st user ident))"
    if "no_orphans st2 \<and> (\<forall>c \<in> set (clicks st2). urlId c \<noteq> ident)"
    using that no_orphans_unlinked [of st2 ident] by (simp add: d)
  have g: "ident \<notin> oid ` set (urls (snd (delete_handler f meanwhile meanwhile' st user ident)))"
    if "distinct (map oid (urls st2))"
    using that delete_first_distinct [of oid "urls st2" ident] by (simp add: d)
  from st1_def st2_def d c1 o g
  show "\<exists>st1 st2.
          st1 = (meanwhile st)\<lparr>clicks := filter (\<lambda>c. urlId c \<noteq> ident) (clicks (meanwhile st))\<rparr>
        \<and> st2 = meanwhile' st1
        \<and> snd (delete_handler f meanwhile meanwhile' st user ident)
            = st2\<lparr>urls := delete_first (\<lambda>v. oid v = ident) (urls st2)\<rparr>
        \<and> (\<forall>c \<in> set (clicks st1). urlId c \<noteq> ident)
        \<and> (no_orphans st2 \<and> (\<forall>c \<in> set (clicks st2). urlId c \<noteq> ident) \<longrightarrow>
             no_orphans (snd (delete_handler f meanwhile meanwhile' st user ident)))
        \<and> (distinct (map oid (urls st2)) \<longrightarrow>
             ident \<notin> oid ` set (urls (snd (delete_handler f meanwhile meanwhile' st user ident))))"
    by blast
next
  assume o: "no_orphans st"
  have f: "no_orphans (st\<lparr>clicks := filter (\<lambda>c. urlId c \<noteq> ident) (clicks st)\<rparr>)"
    using o by (rule no_orphans_filtered)
  have "no_orphans ((st\<lparr>clicks := filter (\<lambda>c. urlId c \<noteq> ident) (clicks st)\<rparr>)
            \<lparr>urls := delete_first (\<lambda>v. oid v = ident)
                (urls (st\<lparr>clicks := filter (\<lambda>c. urlId c \<noteq> ident) (clicks st)\<rparr>))\<rparr>)"
    using f by (rule no_orphans_unlinked) simp
  then have u: "no_orphans ((st\<lparr>clicks := filter (\<lambda>c. urlId c \<noteq> ident) (clicks st)\<rparr>)
            \<lparr>urls := delete_first (\<lambda>v. oid v = ident) (urls st)\<rparr>)"
    by simp
  from o f u
  show "no_orphans (snd (delete_handler f nothing_meanwhile nothing_meanwhile st user ident))"
    using delete_handler_alone [of f st user ident] by auto
qed

theorem delete_cascades_witness:
  "fst (delete_handler no_faults nothing_meanwhile nothing_meanwhile ex_clicked_store 7 11)
     = Json 200 True (Message ''URL deleted successfully'')
   \<and> distinct (map oid (urls ex_clicked_store)) \<and> no_orphans ex_clicked_store
   \<and> clicks ex_clicked_store = [ex_click] \<and> urlId ex_click = 11
   \<and> snd (delete_handler no_faults nothing_meanwhile nothing_meanwhile ex_clicked_store 7 11)
       = \<lparr>urls = [ex_other], clicks = []\<rparr>
   \<and> 11 \<notin> oid ` set (urls (snd (delete_handler no_faults nothing_meanwhile nothing_meanwhile
         ex_clicked_store 7 11)))
   \<and> no_orphans (snd (delete_handler no_faults nothing_meanwhile nothing_meanwhile
         ex_clicked_store 7 11))"
proof -
  note t = delete_cascades [of no_faults nothing_meanwhile nothing_meanwhile ex_clicked_store 7 11]
  have ok: "fst (delete_handler no_faults nothing_meanwhile nothing_meanwhile ex_clicked_store 7 11)
     = Json 200 True (Message ''URL deleted successfully'')"
    by (simp add: ex_delete)
  have d: "distinct (map oid (urls ex_clicked_store))"
    by (simp add: ex_clicked_store_def ex_link_def ex_other_def)
  have o: "no_orphans ex_clicked_store"
    by (simp add: no_orphans_def ex_clicked_store_def ex_link_def ex_other_def ex_click_def)
  have c: "clicks ex_clicked_store = [ex_click]" and u: "urlId ex_click = 11"
    by (simp_all add: ex_clicked_store_def ex_click_def)
  from t [THEN conjunct1, THEN mp, OF ok] obtain st1 st2 where
    s1: "st1 = (nothing_meanwhile ex_clicked_store)\<lparr>clicks :=
            filter (\<lambda>c. urlId c \<noteq> 11) (clicks (nothing_meanwhile ex_clicked_store))\<rparr>"
    and s2: "st2 = nothing_meanwhile st1"
    and r: "snd (delete_handler no_faults nothing_meanwhile nothing_meanwhile ex_clicked_store 7 11)
            = st2\<lparr>urls := delete_first (\<lambda>v. oid v = 11) (urls st2)\<rparr>"
    and g: "distinct (map oid (urls st2)) \<longrightarrow>
             11 \<notin> oid ` set (urls (snd (delete_handler no_faults nothing_meanwhile
               nothing_meanwhile ex_clicked_store 7 11)))"
    by blast
  have st2: "st2 = \<lparr>urls = [ex_other, ex_link], clicks = []\<rparr>"
    by (simp add: s2 s1 nothing_meanwhile_def ex_clicked_store_def ex_click_def)
  have a: "snd (delete_handler no_faults nothing_meanwhile nothing_meanwhile ex_clicked_store 7 11)
       = \<lparr>urls = [ex_other], clicks = []\<rparr>"
    by (simp add: r st2 ex_link_def ex_other_def)
  have "distinct (map oid (urls st2))"
    by (simp add: st2 ex_link_def ex_other_def)
  with g have b: "11 \<notin> oid ` set (urls (snd (delete_handler no_faults nothing_meanwhile
         nothing_meanwhile ex_clicked_store 7 11)))"
    by (rule mp)
  have e: "no_orphans (snd (delete_handler no_faults nothing_meanwhile nothing_meanwhile
         ex_clicked_store 7 11))"
    by (rule t [THEN conjunct2, THEN mp, OF o])
  show ?thesis
    by (intro conjI ok d o c u a b e)
qed

text \<open>
  The claim as written concludes that no click ever refers to a link that is gone.  The
  handler awaits \<^verbatim>\<open>Click.deleteMany\<close> and \<^verbatim>\<open>url.deleteOne\<close> one after the other, and
  nothing checks the link when a click is inserted.  A click that the public endpoint
  stores between the two survives, and the deletion of the link itself makes it an
  orphan; one stored after the deletion is an orphan from the start.
\<close>

theorem orphan_after_delete:
  "no_orphans ex_clicked_store
   \<and> delete_handler no_faults nothing_meanwhile ex_click_stored_meanwhile ex_clicked_store 7 11
       = (Json 200 True (Message ''URL deleted successfully''),
          \<lparr>urls = [ex_other],
           clicks = [\<lparr>city = ''Unknown'', country = ''Unknown'', region = ''Unknown'',
             urlId = 11, device = ''desktop'', browser = ''Unknown'', os = ''Unknown'',
             ip = ''Unknown'', referer = ''Direct''\<rparr>]\<rparr>)
   \<and> \<not> no_orphans (snd (delete_handler no_faults nothing_meanwhile ex_click_stored_meanwhile
         ex_clicked_store 7 11))
   \<and> fst (delete_handler no_faults nothing_meanwhile nothing_meanwhile ex_clicked_store 7 11)
       = Json 200 True (Message ''URL deleted successfully'')
   \<and> status_code (fst (store_click_handler no_faults
         (snd (delete_handler no_faults nothing_meanwhile nothing_meanwhile ex_clicked_store 7 11))
         ex_body)) = 201
   \<and> \<not> no_orphans (snd (store_click_handler no_faults
         (snd (delete_handler no_faults nothing_meanwhile nothing_meanwhile ex_clicked_store 7 11))
         ex_body))"
proof -
  have o: "no_orphans ex_clicked_store"
    by (simp add: no_orphans_def ex_clicked_store_def ex_link_def ex_other_def ex_click_def)
  have s: "store_click_handler no_faults \<lparr>urls = us, clicks = []\<rparr> ex_body =
      (Json 201 True (ClickData \<lparr>city = ''Unknown'', country = ''Unknown'', region = ''Unknown'',
          urlId = 11, device = ''desktop'', browser = ''Unknown'', os = ''Unknown'',
          ip = ''Unknown'', referer = ''Direct''\<rparr>),
       \<lparr>urls = us, clicks = [\<lparr>city = ''Unknown'', country = ''Unknown'', region = ''Unknown'',
          urlId = 11, device = ''desktop'', browser = ''Unknown'', os = ''Unknown'',
          ip = ''Unknown'', referer = ''Direct''\<rparr>]\<rparr>)" for us
    by (simp add: store_click_handler_def Let_def no_faults_def ex_body_def)
  have between: "delete_handler no_faults nothing_meanwhile ex_click_stored_meanwhile
        ex_clicked_store 7 11
       = (Json 200 True (Message ''URL deleted successfully''),
          \<lparr>urls = [ex_other],
           clicks = [\<lparr>city = ''Unknown'', country = ''Unknown'', region = ''Unknown'',
             urlId = 11, device = ''desktop'', browser = ''Unknown'', os = ''Unknown'',
             ip = ''Unknown'', referer = ''Direct''\<rparr>]\<rparr>)"
    by (simp add: delete_handler_def delete_find_def delete_clicks_def delete_link_def
        nothing_meanwhile_def ex_click_stored_meanwhile_def s ex_clicked_store_def
        ex_click_def)
       (simp add: no_faults_def ex_link_def ex_other_def)
  have orphan: "\<not> no_orphans \<lparr>urls = [ex_other],
           clicks = [\<lparr>city = ''Unknown'', country = ''Unknown'', region = ''Unknown'',
             urlId = 11, device = ''desktop'', browser = ''Unknown'', os = ''Unknown'',
             ip = ''Unknown'', referer = ''Direct''\<rparr>]\<rparr>"
    by (simp add: no_orphans_def ex_other_def)
  show ?thesis
    using o orphan by (simp add: between ex_delete s)
qed

text \<open>
  The same happens inside the redirect pipeline: a redirect has resolved the link and
  returned, the owner's delete request removes the clicks while the geolocation lookup is
  in flight, the callback inserts its click, and the delete request then removes the
  link.
\<close>

lemma recorder_between_deletes:
  "map_option (\<lambda>r. no_orphans (snd (delete_handler no_faults nothing_meanwhile
        (\<lambda>st. snd (record_click no_faults FetchRejects r st)) ex_clicked_store 7 11)))
     (snd (redirect_request ex_encode no_faults ex_clicked_store (ex_request ''abc123'')))
   = Some False"
proof -
  have n: "shortCode (ex_request ''abc123'') \<noteq> ''api''"
    by (simp add: ex_request_def)
  have nf: "\<not> findOne_rejects no_faults" and cf: "\<not> create_rejects no_faults"
    and df: "\<not> deleteMany_rejects no_faults \<and> \<not> deleteOne_rejects no_faults"
    by (simp_all add: no_faults_def)
  have h: "Url_findOne_or (urls ex_clicked_store) (shortCode (ex_request ''abc123'')) = Some ex_link"
    by (simp add: Url_findOne_or_def matches_code_def ex_clicked_store_def ex_link_def ex_other_def
        ex_request_def)
  have g: "snd (getGeolocation (getClientIP (ex_request ''abc123'')) FetchRejects) = Inr geo_unknown"
    using ex_client_not_local
    by (simp add: ex_request_client getGeolocation_remote getGeolocation_try_def)
  have run: "snd (record_click no_faults FetchRejects
        \<lparr>resolved = snd (getGeolocation_call (getClientIP (ex_request ''abc123''))),
         document = click_document ex_link (ex_request ''abc123'')\<rparr> st)
      = st\<lparr>clicks := clicks st @ [click_document ex_link (ex_request ''abc123'') geo_unknown]\<rparr>"
    for st
    using cf by (simp add: record_click_run [OF refl g])
  have f: "delete_find no_faults ex_clicked_store 7 11 = Inr ex_link"
    by (simp add: delete_find_def no_faults_def ex_clicked_store_def ex_link_def ex_other_def)
  have i: "urlId (click_document ex_link (ex_request ''abc123'') geo_unknown) = 11"
    by (simp add: click_document_def Let_def ex_link_def)
  have "snd (delete_handler no_faults nothing_meanwhile
        (\<lambda>st. snd (record_click no_faults FetchRejects
            \<lparr>resolved = snd (getGeolocation_call (getClientIP (ex_request ''abc123''))),
             document = click_document ex_link (ex_request ''abc123'')\<rparr> st))
        ex_clicked_store 7 11)
     = \<lparr>urls = [ex_other],
        clicks = [click_document ex_link (ex_request ''abc123'') geo_unknown]\<rparr>"
    using df
    by (simp add: delete_handler_def f delete_clicks_def delete_link_def run
        nothing_meanwhile_def)
       (simp add: ex_clicked_store_def ex_click_def ex_link_def ex_other_def)
  then show ?thesis
    by (simp add: redirect_request_hit [OF n nf h] no_orphans_def i ex_other_def)
qed

end
